theory Spec2Isabelle
  imports Complex_Main
begin

section \<open>JavaScript numbers\<close>

text \<open>
  A JavaScript number is modelled as a finite real or one of the three special values.
  Arithmetic on finite values is exact (no rounding, no overflow, no signed zero); the
  special values follow IEEE 754 as JavaScript does.
\<close>

datatype jsnum = Fin real | PosInf | NegInf | NaN

fun isNaN :: "jsnum \<Rightarrow> bool" where
  "isNaN NaN = True"
| "isNaN _ = False"

fun isFinite :: "jsnum \<Rightarrow> bool" where
  "isFinite (Fin _) = True"
| "isFinite _ = False"

fun fin_val :: "jsnum \<Rightarrow> real" where
  "fin_val (Fin a) = a"
| "fin_val _ = 0"

fun js_sign :: "jsnum \<Rightarrow> int" where
  "js_sign (Fin a) = (if a < 0 then -1 else if a = 0 then 0 else 1)"
| "js_sign PosInf = 1"
| "js_sign NegInf = -1"
| "js_sign NaN = 0"

definition inf_of_sign :: "int \<Rightarrow> jsnum" where
  "inf_of_sign s = (if s = 0 then NaN else if 0 < s then PosInf else NegInf)"

fun js_neg :: "jsnum \<Rightarrow> jsnum" where
  "js_neg (Fin a) = Fin (- a)"
| "js_neg PosInf = NegInf"
| "js_neg NegInf = PosInf"
| "js_neg NaN = NaN"

fun js_add :: "jsnum \<Rightarrow> jsnum \<Rightarrow> jsnum" where
  "js_add (Fin a) (Fin b) = Fin (a + b)"
| "js_add NaN _ = NaN"
| "js_add _ NaN = NaN"
| "js_add PosInf NegInf = NaN"
| "js_add NegInf PosInf = NaN"
| "js_add PosInf _ = PosInf"
| "js_add _ PosInf = PosInf"
| "js_add NegInf _ = NegInf"
| "js_add _ NegInf = NegInf"

definition js_sub :: "jsnum \<Rightarrow> jsnum \<Rightarrow> jsnum" where
  "js_sub a b = js_add a (js_neg b)"

fun js_mul :: "jsnum \<Rightarrow> jsnum \<Rightarrow> jsnum" where
  "js_mul (Fin a) (Fin b) = Fin (a * b)"
| "js_mul NaN _ = NaN"
| "js_mul _ NaN = NaN"
| "js_mul a b = inf_of_sign (js_sign a * js_sign b)"

fun js_div :: "jsnum \<Rightarrow> jsnum \<Rightarrow> jsnum" where
  "js_div NaN _ = NaN"
| "js_div _ NaN = NaN"
| "js_div (Fin a) (Fin b) = (if b = 0 then inf_of_sign (js_sign (Fin a)) else Fin (a / b))"
| "js_div (Fin a) _ = Fin 0"
| "js_div a (Fin b) = inf_of_sign (js_sign a * (if b < 0 then -1 else 1))"
| "js_div _ _ = NaN"

fun js_sqrt :: "jsnum \<Rightarrow> jsnum" where
  "js_sqrt (Fin a) = (if a < 0 then NaN else Fin (sqrt a))"
| "js_sqrt PosInf = PosInf"
| "js_sqrt _ = NaN"

text \<open>The comparisons \<open><\<close> and \<open>>=\<close>: both are false when an operand is NaN.\<close>

fun js_lt :: "jsnum \<Rightarrow> jsnum \<Rightarrow> bool" where
  "js_lt NaN _ = False"
| "js_lt _ NaN = False"
| "js_lt (Fin a) (Fin b) = (a < b)"
| "js_lt _ NegInf = False"
| "js_lt NegInf _ = True"
| "js_lt PosInf _ = False"
| "js_lt _ PosInf = True"

definition js_ge :: "jsnum \<Rightarrow> jsnum \<Rightarrow> bool" where
  "js_ge a b = (\<not> isNaN a \<and> \<not> isNaN b \<and> \<not> js_lt a b)"

text \<open>\<open>Math.round\<close> rounds half up; \<open>Math.min\<close> and \<open>Math.max\<close> give NaN when an argument is NaN.\<close>

fun Math_round :: "jsnum \<Rightarrow> jsnum" where
  "Math_round (Fin a) = Fin (of_int \<lfloor>a + 1 / 2\<rfloor>)"
| "Math_round v = v"

definition Math_min :: "jsnum \<Rightarrow> jsnum \<Rightarrow> jsnum" where
  "Math_min a b = (if isNaN a \<or> isNaN b then NaN else if js_lt b a then b else a)"

definition Math_max :: "jsnum \<Rightarrow> jsnum \<Rightarrow> jsnum" where
  "Math_max a b = (if isNaN a \<or> isNaN b then NaN else if js_lt a b then b else a)"

section \<open>THREE.Vector3\<close>

text \<open>
  The positions handed to the scoring engine are \<open>THREE.Vector3\<close> objects. The library is
  not part of the repository; its \<open>distanceTo\<close> is the Euclidean distance
  \<open>Math.sqrt(dx * dx + dy * dy + dz * dz)\<close>. The fields \<open>x\<close>, \<open>y\<close>, \<open>z\<close> are
  named \<open>vx\<close>, \<open>vy\<close>, \<open>vz\<close> here.
\<close>

record vector3 =
  vx :: jsnum
  vy :: jsnum
  vz :: jsnum

definition distanceToSquared :: "vector3 \<Rightarrow> vector3 \<Rightarrow> jsnum" where
  "distanceToSquared p v =
     (let dx = js_sub (vx p) (vx v); dy = js_sub (vy p) (vy v); dz = js_sub (vz p) (vz v)
      in js_add (js_add (js_mul dx dx) (js_mul dy dy)) (js_mul dz dz))"

definition distanceTo :: "vector3 \<Rightarrow> vector3 \<Rightarrow> jsnum" where
  "distanceTo p v = js_sqrt (distanceToSquared p v)"

section \<open>Collision threat scoring engine (cts-engine.js)\<close>

definition DANGER_RADIUS :: jsnum where "DANGER_RADIUS = Fin 100"
definition CRITICAL_RADIUS :: jsnum where "CRITICAL_RADIUS = Fin 10"
definition EXTREME_RADIUS :: jsnum where "EXTREME_RADIUS = Fin 5"
definition DANGER_WEIGHT :: jsnum where "DANGER_WEIGHT = Fin (1 / 2)"
definition CRITICAL_BONUS :: jsnum where "CRITICAL_BONUS = Fin 50"
definition EXTREME_BONUS :: jsnum where "EXTREME_BONUS = Fin 80"
definition MAX_HISTORY :: nat where "MAX_HISTORY = 120"

record threat_rec =
  index :: nat
  distance :: jsnum
  threat :: jsnum

text \<open>The module state: the three \<open>let\<close> variables of the engine's closure.\<close>

record cts_state =
  historicalScores :: "jsnum list"
  forceScore :: "jsnum option"
  lastThreats :: "threat_rec list"

definition cts_init :: cts_state where
  "cts_init = \<lparr>historicalScores = [], forceScore = None, lastThreats = []\<rparr>"

text \<open>\<open>historicalScores.push(v); if (historicalScores.length > MAX_HISTORY) historicalScores.shift()\<close>\<close>

definition pushHistory :: "jsnum \<Rightarrow> jsnum list \<Rightarrow> jsnum list" where
  "pushHistory v h = (let h' = h @ [v] in if length h' > MAX_HISTORY then tl h' else h')"

definition distanceKm_of :: "vector3 \<Rightarrow> vector3 \<Rightarrow> jsnum" where
  "distanceKm_of playerPosition debrisPos = js_mul (distanceTo playerPosition debrisPos) (Fin 1000)"

text \<open>
  The callback of \<open>debrisPositions.forEach\<close>: it updates the two locals
  \<open>threatScore\<close> and \<open>threats\<close> for the debris object at position \<open>idx\<close>.
\<close>

definition analyzeDebris :: "vector3 \<Rightarrow> jsnum \<times> threat_rec list \<Rightarrow> nat \<times> vector3 \<Rightarrow> jsnum \<times> threat_rec list" where
  "analyzeDebris playerPosition acc item =
     (let (threatScore, threats) = acc;
          (idx, debrisPos) = item;
          distanceKm = distanceKm_of playerPosition debrisPos
      in if \<not> isFinite distanceKm \<or> isNaN distanceKm then (threatScore, threats)
         else if js_lt distanceKm DANGER_RADIUS then
           (let proximityThreat = js_mul (js_sub DANGER_RADIUS distanceKm) DANGER_WEIGHT;
                threatScore1 = js_add threatScore proximityThreat;
                threats1 = threats @ [\<lparr>index = idx, distance = distanceKm, threat = proximityThreat\<rparr>]
            in if js_lt distanceKm CRITICAL_RADIUS then
                 (let threatScore2 = js_add threatScore1 CRITICAL_BONUS
                  in if js_lt distanceKm EXTREME_RADIUS
                     then (js_add threatScore2 EXTREME_BONUS, threats1)
                     else (threatScore2, threats1))
               else (threatScore1, threats1))
         else (threatScore, threats))"

text \<open>The whole \<open>forEach\<close>, started from \<open>threatScore = 0\<close> and \<open>threats = []\<close>.\<close>

fun forEachDebris :: "vector3 \<Rightarrow> jsnum \<times> threat_rec list \<Rightarrow> (nat \<times> vector3) list \<Rightarrow> jsnum \<times> threat_rec list" where
  "forEachDebris playerPosition acc [] = acc"
| "forEachDebris playerPosition acc (item # items) =
     forEachDebris playerPosition (analyzeDebris playerPosition acc item) items"

definition scanDebris :: "vector3 \<Rightarrow> vector3 list \<Rightarrow> jsnum \<times> threat_rec list" where
  "scanDebris playerPosition debrisPositions =
     forEachDebris playerPosition (Fin 0, []) (enumerate 0 debrisPositions)"

text \<open>
  \<open>threats.sort((a, b) => a.distance - b.distance)\<close>: a stable sort by distance; every
  recorded distance is finite.
\<close>

definition sortThreats :: "threat_rec list \<Rightarrow> threat_rec list" where
  "sortThreats threats = sort_key (\<lambda>t. fin_val (distance t)) threats"

text \<open>
  \<open>calculateScore(playerPosition, debrisPositions)\<close>. The arguments are typed as
  documented: a \<open>THREE.Vector3\<close> and an array of them; a missing argument (\<open>null\<close> or
  \<open>undefined\<close>) is \<open>None\<close>. The result is the returned score and the module state
  after the call.
\<close>

definition calculateScore :: "vector3 option \<Rightarrow> vector3 list option \<Rightarrow> cts_state \<Rightarrow> jsnum \<times> cts_state" where
  "calculateScore playerPosition debrisPositions s =
     (case forceScore s of
        Some f \<Rightarrow> (f, s\<lparr>historicalScores := pushHistory f (historicalScores s)\<rparr>)
      | None \<Rightarrow>
        (case (playerPosition, debrisPositions) of
           (Some p, Some (d # ds)) \<Rightarrow>
             (let (threatScore0, threats) = scanDebris p (d # ds);
                  threatScore = Math_min (Math_round threatScore0) (Fin 100)
              in (threatScore,
                  s\<lparr>historicalScores := pushHistory threatScore (historicalScores s),
                    lastThreats := take 5 (sortThreats threats)\<rparr>))
         | _ \<Rightarrow> (Fin 0, s\<lparr>historicalScores := pushHistory (Fin 0) (historicalScores s)\<rparr>)))"

text \<open>
  The same call on an array whose entries may be \<open>null\<close>, as \<open>getDebrisPositions\<close>
  builds it. \<open>distanceTo(null)\<close> reads \<open>v.x\<close> of its argument and throws a
  \<open>TypeError\<close>; the \<open>forEach\<close> stops there, before the engine has written any state.
  Under an override and on invalid input the array is never walked.
\<close>

datatype js_error = TypeError

fun forEachDebris_nullable ::
  "vector3 \<Rightarrow> jsnum \<times> threat_rec list \<Rightarrow> (nat \<times> vector3 option) list \<Rightarrow>
   js_error + jsnum \<times> threat_rec list" where
  "forEachDebris_nullable playerPosition acc [] = Inr acc"
| "forEachDebris_nullable playerPosition acc ((idx, None) # items) = Inl TypeError"
| "forEachDebris_nullable playerPosition acc ((idx, Some debrisPos) # items) =
     forEachDebris_nullable playerPosition (analyzeDebris playerPosition acc (idx, debrisPos)) items"

definition calculateScore_nullable ::
  "vector3 option \<Rightarrow> vector3 option list option \<Rightarrow> cts_state \<Rightarrow> js_error + jsnum \<times> cts_state" where
  "calculateScore_nullable playerPosition debrisPositions s =
     (case forceScore s of
        Some f \<Rightarrow> Inr (f, s\<lparr>historicalScores := pushHistory f (historicalScores s)\<rparr>)
      | None \<Rightarrow>
        (case (playerPosition, debrisPositions) of
           (Some p, Some (d # ds)) \<Rightarrow>
             (case forEachDebris_nullable p (Fin 0, []) (enumerate 0 (d # ds)) of
                Inl e \<Rightarrow> Inl e
              | Inr (threatScore0, threats) \<Rightarrow>
                  (let threatScore = Math_min (Math_round threatScore0) (Fin 100)
                   in Inr (threatScore,
                        s\<lparr>historicalScores := pushHistory threatScore (historicalScores s),
                          lastThreats := take 5 (sortThreats threats)\<rparr>)))
         | _ \<Rightarrow> Inr (Fin 0, s\<lparr>historicalScores := pushHistory (Fin 0) (historicalScores s)\<rparr>)))"

text \<open>The module state after such a call: a call that throws leaves it as it was.\<close>

definition stateAfter :: "vector3 option \<Rightarrow> vector3 option list option \<Rightarrow> cts_state \<Rightarrow> cts_state" where
  "stateAfter playerPosition debrisPositions s =
     (case calculateScore_nullable playerPosition debrisPositions s of
        Inl e \<Rightarrow> s
      | Inr (score, s') \<Rightarrow> s')"

definition getScoreStatus :: "jsnum \<Rightarrow> string" where
  "getScoreStatus score =
     (if js_ge score (Fin 86) then ''CRITICAL''
      else if js_ge score (Fin 61) then ''WARNING''
      else if js_ge score (Fin 31) then ''ELEVATED''
      else ''NOMINAL'')"

definition getClosestThreats :: "cts_state \<Rightarrow> threat_rec list" where
  "getClosestThreats s = lastThreats s"

text \<open>\<open>setForceScore(score)\<close>: \<open>None\<close> is the \<open>null\<close> sentinel.\<close>

definition setForceScore :: "jsnum option \<Rightarrow> cts_state \<Rightarrow> cts_state" where
  "setForceScore score s =
     (case score of
        None \<Rightarrow> s\<lparr>forceScore := None\<rparr>
      | Some v \<Rightarrow> s\<lparr>forceScore := Some (Math_min (Math_max (Math_round v) (Fin 0)) (Fin 100))\<rparr>)"

definition resetHistory :: "cts_state \<Rightarrow> cts_state" where
  "resetHistory s = s\<lparr>historicalScores := [], lastThreats := []\<rparr>"

definition getHistory :: "cts_state \<Rightarrow> jsnum list" where
  "getHistory s = historicalScores s"

section \<open>Orbital propagator (orbital.js)\<close>

text \<open>
  A property of a JavaScript object can hold any value; \<open>typeof\<close> tells the numbers
  from the rest.
\<close>

datatype jsval = JUndefined | JNull | JBool bool | JNumber jsnum | JString string

fun typeof :: "jsval \<Rightarrow> string" where
  "typeof JUndefined = ''undefined''"
| "typeof JNull = ''object''"
| "typeof (JBool _) = ''boolean''"
| "typeof (JNumber _) = ''number''"
| "typeof (JString _) = ''string''"

fun toNumber :: "jsval \<Rightarrow> jsnum" where
  "toNumber (JNumber n) = n"
| "toNumber JNull = Fin 0"
| "toNumber (JBool b) = (if b then Fin 1 else Fin 0)"
| "toNumber _ = NaN"

text \<open>An ECI position or velocity \<open>{x, y, z}\<close> in km or km/s; the fields are named \<open>ex\<close>, \<open>ey\<close>, \<open>ez\<close>.\<close>

record eci =
  ex :: jsval
  ey :: jsval
  ez :: jsval

definition SCALE_FACTOR :: jsnum where "SCALE_FACTOR = Fin 1000"
definition MAX_ACTIVE_RENDER :: nat where "MAX_ACTIVE_RENDER = 500"

text \<open>
  The SGP4 library \<open>satellite.js\<close> is not part of the repository. Its \<open>propagate\<close> is a
  parameter \<open>lib\<close> of the model: for a satellite record and a date it either throws or
  returns an object whose \<open>position\<close> and \<open>velocity\<close> are each \<open>false\<close>, the value
  \<open>satellite.error\<close>, or a vector. Dates are milliseconds since the epoch.
\<close>

datatype lib_vec = VecFalse | VecError | Vec eci

datatype lib_result = Throws | Returns lib_vec lib_vec

type_synonym date = int

type_synonym 'r sat_lib = "'r \<Rightarrow> date \<Rightarrow> lib_result"

record 'r sat =
  name :: string
  satrec :: 'r

text \<open>The module state: the four \<open>let\<close> variables of the propagator's closure.\<close>

record 'r orbital_state =
  activeSatellites :: "'r sat list"
  debrisSatellites :: "'r sat list"
  criticalSatellites :: "'r sat list"
  playerSatellite :: "'r sat option"

record pv =
  position :: eci
  velocity :: lib_vec

text \<open>
  \<open>propagate(satrec, date)\<close>. The module state is in the scope of the function and is
  passed to it as to every function of the module; \<open>None\<close> is the \<open>null\<close> result.
\<close>

definition propagate :: "'r sat_lib \<Rightarrow> 'r orbital_state \<Rightarrow> 'r \<Rightarrow> date \<Rightarrow> pv option" where
  "propagate lib st satrec_arg date_arg =
     (case lib satrec_arg date_arg of
        Throws \<Rightarrow> None
      | Returns pos vel \<Rightarrow>
          (case pos of
             VecFalse \<Rightarrow> None
           | VecError \<Rightarrow> None
           | Vec p \<Rightarrow> Some \<lparr>position = p, velocity = vel\<rparr>))"

text \<open>
  \<open>eciToScenePosition(eciPosition)\<close>. The first argument says whether the global
  \<open>THREE\<close> is defined; a missing position is \<open>None\<close>.
\<close>

definition eciToScenePosition :: "bool \<Rightarrow> eci option \<Rightarrow> vector3 option" where
  "eciToScenePosition THREE_defined eciPosition =
     (case eciPosition of
        None \<Rightarrow> None
      | Some e \<Rightarrow>
          if typeof (ex e) \<noteq> ''number'' \<or> typeof (ey e) \<noteq> ''number'' \<or> typeof (ez e) \<noteq> ''number''
          then None
          else if isNaN (toNumber (ex e)) \<or> isNaN (toNumber (ey e)) \<or> isNaN (toNumber (ez e))
          then None
          else if \<not> isFinite (toNumber (ex e)) \<or> \<not> isFinite (toNumber (ey e)) \<or> \<not> isFinite (toNumber (ez e))
          then None
          else if \<not> THREE_defined then None
          else
            (let x = js_div (toNumber (ex e)) SCALE_FACTOR;
                 y = js_div (toNumber (ez e)) SCALE_FACTOR;
                 z = js_div (js_neg (toNumber (ey e))) SCALE_FACTOR
             in if isNaN x \<or> isNaN y \<or> isNaN z then None
                else Some \<lparr>vx = x, vy = y, vz = z\<rparr>))"

definition getPlayerPosition :: "'r sat_lib \<Rightarrow> bool \<Rightarrow> 'r orbital_state \<Rightarrow> date \<Rightarrow> vector3 option" where
  "getPlayerPosition lib THREE_defined st date_arg =
     (case playerSatellite st of
        None \<Rightarrow> None
      | Some player \<Rightarrow>
          (case propagate lib st (satrec player) date_arg of
             None \<Rightarrow> None
           | Some r \<Rightarrow> eciToScenePosition THREE_defined (Some (position r))))"

text \<open>
  The \<open>for\<close> loop of \<open>getActiveSatellitePositions\<close>. A converted position is pushed
  whenever the propagation gave a result, also when the conversion gave \<open>null\<close>, so the
  array holds optional vectors.
\<close>

function activeLoop ::
  "'r sat_lib \<Rightarrow> bool \<Rightarrow> 'r orbital_state \<Rightarrow> date \<Rightarrow> nat \<Rightarrow> nat \<Rightarrow> vector3 option list \<Rightarrow> vector3 option list" where
  "activeLoop lib THREE_defined st date_arg limit i positions =
     (if i < limit then
        (case propagate lib st (satrec (activeSatellites st ! i)) date_arg of
           Some r \<Rightarrow>
             activeLoop lib THREE_defined st date_arg limit (Suc i)
               (positions @ [eciToScenePosition THREE_defined (Some (position r))])
         | None \<Rightarrow> activeLoop lib THREE_defined st date_arg limit (Suc i) positions)
      else positions)"
  by pat_completeness auto
termination
  by (relation "measure (\<lambda>(lib, three, st, d, limit, i, positions). limit - i)") auto

definition getActiveSatellitePositions :: "'r sat_lib \<Rightarrow> bool \<Rightarrow> 'r orbital_state \<Rightarrow> date \<Rightarrow> vector3 option list" where
  "getActiveSatellitePositions lib THREE_defined st date_arg =
     (let limit = min (length (activeSatellites st)) MAX_ACTIVE_RENDER
      in activeLoop lib THREE_defined st date_arg limit 0 [])"

text \<open>The callback of the \<open>forEach\<close> of \<open>getDebrisPositions\<close> and \<open>getCriticalDebrisPositions\<close>.\<close>

definition pushScenePosition ::
  "'r sat_lib \<Rightarrow> bool \<Rightarrow> 'r orbital_state \<Rightarrow> date \<Rightarrow> vector3 option list \<Rightarrow> 'r sat \<Rightarrow> vector3 option list" where
  "pushScenePosition lib THREE_defined st date_arg positions s =
     (case propagate lib st (satrec s) date_arg of
        Some r \<Rightarrow> positions @ [eciToScenePosition THREE_defined (Some (position r))]
      | None \<Rightarrow> positions)"

definition getDebrisPositions :: "'r sat_lib \<Rightarrow> bool \<Rightarrow> 'r orbital_state \<Rightarrow> date \<Rightarrow> vector3 option list" where
  "getDebrisPositions lib THREE_defined st date_arg =
     foldl (pushScenePosition lib THREE_defined st date_arg) [] (debrisSatellites st)"

definition getCriticalDebrisPositions :: "'r sat_lib \<Rightarrow> bool \<Rightarrow> 'r orbital_state \<Rightarrow> date \<Rightarrow> vector3 option list" where
  "getCriticalDebrisPositions lib THREE_defined st date_arg =
     foldl (pushScenePosition lib THREE_defined st date_arg) [] (criticalSatellites st)"

section \<open>Simulation scheduler (app.js)\<close>

text \<open>
  What the presentation layer last received from the scheduler: the positions handed to
  the scene manager, the score handed to the display, and the number of rendered frames.
\<close>

record scene_state =
  playerMesh :: "vector3 option"
  debrisMeshes :: "vector3 option list"
  activeMeshes :: "vector3 option list"
  ctsDisplay :: "jsnum option"
  renderCount :: nat

text \<open>
  The module state of \<open>App\<close>, together with the states of the modules it drives.
  \<open>currentDate\<close> is the time value of the \<open>Date\<close> object, a whole number of
  milliseconds; the time stamps are values of \<open>Date.now()\<close>. The time multiplier is a
  finite number.
\<close>

record 'r app_state =
  isRunning :: bool
  currentDate :: date
  lastUpdateTime :: int
  timeMultiplier :: real
  frameCount :: nat
  lastDebrisUpdate :: int
  lastActiveSatUpdate :: int
  lastCTSUpdate :: int
  lastUIUpdate :: int
  orbital :: "'r orbital_state"
  cts :: cts_state
  scene :: scene_state

definition DEBRIS_UPDATE_INTERVAL :: int where "DEBRIS_UPDATE_INTERVAL = 100"
definition ACTIVE_SAT_INTERVAL :: int where "ACTIVE_SAT_INTERVAL = 500"
definition CTS_UPDATE_INTERVAL :: int where "CTS_UPDATE_INTERVAL = 100"
definition UI_UPDATE_INTERVAL :: int where "UI_UPDATE_INTERVAL = 100"

text \<open>
  \<open>new Date(t)\<close> keeps the integral part of \<open>t\<close> (the \<open>TimeClip\<close> of the language
  standard, which truncates towards zero); time values stay inside the range of \<open>Date\<close>.
\<close>

definition TimeClip :: "real \<Rightarrow> int" where
  "TimeClip t = (if 0 \<le> t then \<lfloor>t\<rfloor> else \<lceil>t\<rceil>)"

definition updatePlayer :: "'r sat_lib \<Rightarrow> bool \<Rightarrow> 'r app_state \<Rightarrow> 'r app_state" where
  "updatePlayer lib THREE_defined s =
     (case getPlayerPosition lib THREE_defined (orbital s) (currentDate s) of
        None \<Rightarrow> s
      | Some pos \<Rightarrow>
          if \<not> isNaN (vx pos) then s\<lparr>scene := (scene s)\<lparr>playerMesh := Some pos\<rparr>\<rparr> else s)"

definition updateDebris :: "'r sat_lib \<Rightarrow> bool \<Rightarrow> 'r app_state \<Rightarrow> 'r app_state" where
  "updateDebris lib THREE_defined s =
     (let debrisPositions = getDebrisPositions lib THREE_defined (orbital s) (currentDate s)
      in if length debrisPositions > 0
         then s\<lparr>scene := (scene s)\<lparr>debrisMeshes := debrisPositions\<rparr>\<rparr> else s)"

definition updateActiveSatellites :: "'r sat_lib \<Rightarrow> bool \<Rightarrow> 'r app_state \<Rightarrow> 'r app_state" where
  "updateActiveSatellites lib THREE_defined s =
     (let positions = getActiveSatellitePositions lib THREE_defined (orbital s) (currentDate s)
      in if length positions > 0
         then s\<lparr>scene := (scene s)\<lparr>activeMeshes := positions\<rparr>\<rparr> else s)"

text \<open>
  \<open>updateCTSScore\<close>. The debris array comes from \<open>getDebrisPositions\<close> and can hold
  \<open>null\<close> entries; when \<open>calculateScore\<close> throws on one, the \<open>catch\<close> here
  swallows the error and nothing has changed.
\<close>

definition updateCTSScore :: "'r sat_lib \<Rightarrow> bool \<Rightarrow> 'r app_state \<Rightarrow> 'r app_state" where
  "updateCTSScore lib THREE_defined s =
     (let playerPosition = getPlayerPosition lib THREE_defined (orbital s) (currentDate s);
          debrisPositions = getDebrisPositions lib THREE_defined (orbital s) (currentDate s)
      in if playerPosition \<noteq> None \<and> length debrisPositions > 0
         then s\<lparr>cts := stateAfter playerPosition (Some debrisPositions) (cts s)\<rparr>
         else s)"

text \<open>\<open>getStatistics().current\<close>: the last history sample, or 0 when it is missing or falsy.\<close>

definition statsCurrent :: "cts_state \<Rightarrow> jsnum" where
  "statsCurrent c =
     (if historicalScores c = [] then Fin 0
      else if isNaN (last (historicalScores c)) \<or> last (historicalScores c) = Fin 0 then Fin 0
      else last (historicalScores c))"

text \<open>
  \<open>updateUI\<close> hands the current score to the display; its other calls (asset panel,
  relationship lines) only draw and are left out.
\<close>

definition updateUI :: "'r app_state \<Rightarrow> 'r app_state" where
  "updateUI s = s\<lparr>scene := (scene s)\<lparr>ctsDisplay := Some (statsCurrent (cts s))\<rparr>\<rparr>"

text \<open>
  One frame of \<open>animate\<close>, with \<open>now\<close> the value of \<open>Date.now()\<close>. Every update
  function catches its own errors, so the frame always reaches the end; the animation of
  the historical debris only draws and is left out.

  The new time value is truncated, so the rounding of the double arithmetic that leads to
  it can show. It is the parameter \<open>fl\<close>, applied after each operation of
  \<open>(now - lastUpdateTime) / 1000\<close> and of
  \<open>currentDate.getTime() + deltaTime * 1000 * timeMultiplier\<close>.
\<close>

definition advanceClock :: "(real \<Rightarrow> real) \<Rightarrow> int \<Rightarrow> 'r app_state \<Rightarrow> 'r app_state" where
  "advanceClock fl now s =
     (let deltaTime = fl (real_of_int (now - lastUpdateTime s) / 1000)
      in s\<lparr>lastUpdateTime := now,
           currentDate :=
             TimeClip (fl (real_of_int (currentDate s) + fl (fl (deltaTime * 1000) * timeMultiplier s))),
           frameCount := frameCount s + 1\<rparr>)"

definition playerStep :: "'r sat_lib \<Rightarrow> bool \<Rightarrow> 'r app_state \<Rightarrow> 'r app_state" where
  "playerStep lib THREE_defined s = (if isRunning s then updatePlayer lib THREE_defined s else s)"

definition debrisStep :: "'r sat_lib \<Rightarrow> bool \<Rightarrow> int \<Rightarrow> 'r app_state \<Rightarrow> 'r app_state" where
  "debrisStep lib THREE_defined now s =
     (if isRunning s \<and> now - lastDebrisUpdate s > DEBRIS_UPDATE_INTERVAL
      then (updateDebris lib THREE_defined s)\<lparr>lastDebrisUpdate := now\<rparr> else s)"

definition activeStep :: "'r sat_lib \<Rightarrow> bool \<Rightarrow> int \<Rightarrow> 'r app_state \<Rightarrow> 'r app_state" where
  "activeStep lib THREE_defined now s =
     (if now - lastActiveSatUpdate s > ACTIVE_SAT_INTERVAL
      then (updateActiveSatellites lib THREE_defined s)\<lparr>lastActiveSatUpdate := now\<rparr> else s)"

definition ctsStep :: "'r sat_lib \<Rightarrow> bool \<Rightarrow> int \<Rightarrow> 'r app_state \<Rightarrow> 'r app_state" where
  "ctsStep lib THREE_defined now s =
     (if isRunning s \<and> now - lastCTSUpdate s > CTS_UPDATE_INTERVAL
      then (updateCTSScore lib THREE_defined s)\<lparr>lastCTSUpdate := now\<rparr> else s)"

definition uiStep :: "int \<Rightarrow> 'r app_state \<Rightarrow> 'r app_state" where
  "uiStep now s =
     (if isRunning s \<and> now - lastUIUpdate s > UI_UPDATE_INTERVAL
      then (updateUI s)\<lparr>lastUIUpdate := now\<rparr> else s)"

definition render :: "'r app_state \<Rightarrow> 'r app_state" where
  "render s = s\<lparr>scene := (scene s)\<lparr>renderCount := renderCount (scene s) + 1\<rparr>\<rparr>"

definition animate :: "(real \<Rightarrow> real) \<Rightarrow> 'r sat_lib \<Rightarrow> bool \<Rightarrow> int \<Rightarrow> 'r app_state \<Rightarrow> 'r app_state" where
  "animate fl lib THREE_defined now s =
     render (uiStep now (ctsStep lib THREE_defined now (activeStep lib THREE_defined now
       (debrisStep lib THREE_defined now (playerStep lib THREE_defined (advanceClock fl now s))))))"

text \<open>\<open>setTimeMultiplier(multiplier)\<close>; the literal \<open>0.1\<close> is the double nearest to 1/10.\<close>

definition setTimeMultiplier :: "(real \<Rightarrow> real) \<Rightarrow> real \<Rightarrow> 'r app_state \<Rightarrow> 'r app_state" where
  "setTimeMultiplier fl multiplier s = s\<lparr>timeMultiplier := max (fl (1 / 10)) (min multiplier 100)\<rparr>"

definition pause :: "'r app_state \<Rightarrow> 'r app_state" where
  "pause s = s\<lparr>isRunning := False\<rparr>"

definition resume :: "'r app_state \<Rightarrow> 'r app_state" where
  "resume s = s\<lparr>isRunning := True\<rparr>"

text \<open>A run of frames at the given values of \<open>Date.now()\<close>.\<close>

definition frames :: "(real \<Rightarrow> real) \<Rightarrow> 'r sat_lib \<Rightarrow> bool \<Rightarrow> int list \<Rightarrow> 'r app_state \<Rightarrow> 'r app_state" where
  "frames fl lib THREE_defined nows s = foldl (\<lambda>s' now. animate fl lib THREE_defined now s') s nows"

section \<open>Specification-side definitions and test data\<close>

text \<open>
  The contribution of one debris object at distance \<open>d\<close> km, following the words of the
  specification; it is compared below with what the \<open>forEach\<close> callback accumulates.
\<close>

definition claimed_contribution :: "real \<Rightarrow> real" where
  "claimed_contribution d =
     (if d \<ge> 100 then 0
      else (100 - d) * (1 / 2) + (if d < 10 then 50 else 0) + (if d < 5 then 80 else 0))"

text \<open>A score in the documented range: an integer between 0 and 100.\<close>

definition isScore :: "jsnum \<Rightarrow> bool" where
  "isScore v = (case v of Fin a \<Rightarrow> a = of_int \<lfloor>a\<rfloor> \<and> 0 \<le> a \<and> a \<le> 100 | _ \<Rightarrow> False)"

text \<open>
  A player at the origin of the scene and debris objects 50 km, 3 km and 200 km away
  (one scene unit is 1000 km).
\<close>

definition p0 :: vector3 where "p0 = \<lparr>vx = Fin 0, vy = Fin 0, vz = Fin 0\<rparr>"

definition d50 :: vector3 where "d50 = \<lparr>vx = Fin (1 / 20), vy = Fin 0, vz = Fin 0\<rparr>"

definition d3 :: vector3 where "d3 = \<lparr>vx = Fin 0, vy = Fin 0, vz = Fin (3 / 1000)\<rparr>"

definition d200 :: vector3 where "d200 = \<lparr>vx = Fin 0, vy = Fin (- (1 / 5)), vz = Fin 0\<rparr>"

text \<open>Sequences of calls on the engine's public interface.\<close>

datatype cts_call = Calc "vector3 option" "vector3 list option" | SetForce "jsnum option"

fun isCalc :: "cts_call \<Rightarrow> bool" where
  "isCalc (Calc _ _) = True"
| "isCalc (SetForce _) = False"

fun runCall :: "cts_state \<Rightarrow> cts_call \<Rightarrow> cts_state" where
  "runCall s (Calc p ds) = snd (calculateScore p ds s)"
| "runCall s (SetForce v) = setForceScore v s"

definition runCalls :: "cts_call list \<Rightarrow> cts_state \<Rightarrow> cts_state" where
  "runCalls calls s = foldl runCall s calls"


text \<open>A component that is a finite number: present, not NaN, not infinite.\<close>

definition finiteNumber :: "jsval \<Rightarrow> bool" where
  "finiteNumber v = (case v of JNumber (Fin _) \<Rightarrow> True | _ \<Rightarrow> False)"


text \<open>Two ECI positions: a finite one, and one with a NaN and a missing component.\<close>

definition e0 :: eci where
  "e0 = \<lparr>ex = JNumber (Fin 7000), ey = JNumber (Fin 1000), ez = JNumber (Fin 2000)\<rparr>"

definition e_nan :: eci where
  "e_nan = \<lparr>ex = JNumber (Fin 7000), ey = JNumber NaN, ez = JUndefined\<rparr>"


text \<open>
  A library that places record 0 at 7000 km from the centre of the Earth and record 1
  50 km further out, and fails on every other record; a module state with 600 active
  satellites, two debris objects and a player; and a scheduler state over them.
\<close>

definition lib0 :: "nat sat_lib" where
  "lib0 r d =
     (if r = 0 then
        Returns (Vec \<lparr>ex = JNumber (Fin 7000), ey = JNumber (Fin 0), ez = JNumber (Fin 0)\<rparr>)
                (Vec \<lparr>ex = JNumber (Fin 0), ey = JNumber (Fin (15 / 2)), ez = JNumber (Fin 0)\<rparr>)
      else if r = 1 then
        Returns (Vec \<lparr>ex = JNumber (Fin 7050), ey = JNumber (Fin 0), ez = JNumber (Fin 0)\<rparr>) VecFalse
      else Throws)"

definition orbital0 :: "nat orbital_state" where
  "orbital0 =
     \<lparr>activeSatellites = replicate 600 \<lparr>name = ''ACTIVE'', satrec = 0\<rparr>,
      debrisSatellites = [\<lparr>name = ''DEBRIS'', satrec = 1\<rparr>, \<lparr>name = ''DECAYED'', satrec = 2\<rparr>],
      criticalSatellites = [],
      playerSatellite = Some \<lparr>name = ''PLAYER'', satrec = 0\<rparr>\<rparr>"

definition app0 :: "nat app_state" where
  "app0 =
     \<lparr>isRunning = True, currentDate = 1000, lastUpdateTime = 0, timeMultiplier = 1, frameCount = 0,
      lastDebrisUpdate = 0, lastActiveSatUpdate = 0, lastCTSUpdate = 0, lastUIUpdate = 0,
      orbital = orbital0, cts = cts_init,
      scene = \<lparr>playerMesh = None, debrisMeshes = [], activeMeshes = [], ctsDisplay = None, renderCount = 0\<rparr>\<rparr>"

text \<open>
  Rounding to the nearest double: for a number between a thousandth and a million in
  absolute value the result is within the relative error \<open>1 / 2 ^ 53\<close> of it.
\<close>

definition doubleRounding :: "(real \<Rightarrow> real) \<Rightarrow> bool" where
  "doubleRounding fl =
     (\<forall>x. 1 / 1000 \<le> \<bar>x\<bar> \<and> \<bar>x\<bar> \<le> 1000000 \<longrightarrow> \<bar>fl x - x\<bar> \<le> \<bar>x\<bar> / 2 ^ 53)"

section \<open>Properties of the scoring engine\<close>

subsection \<open>The branches of \<open>calculateScore\<close>\<close>


lemma calculateScore_invalid:
  assumes "forceScore s = None"
    and "playerPosition = None \<or> debrisPositions = None \<or> debrisPositions = Some []"
  shows "calculateScore playerPosition debrisPositions s =
           (Fin 0, s\<lparr>historicalScores := pushHistory (Fin 0) (historicalScores s)\<rparr>)"
  using assms by (auto simp: calculateScore_def split: option.splits list.splits)

lemma calculateScore_live:
  assumes "forceScore s = None" and "ds \<noteq> []"
  shows "calculateScore (Some p) (Some ds) s =
           (Math_min (Math_round (fst (scanDebris p ds))) (Fin 100),
            s\<lparr>historicalScores :=
                 pushHistory (Math_min (Math_round (fst (scanDebris p ds))) (Fin 100)) (historicalScores s),
              lastThreats := take 5 (sortThreats (snd (scanDebris p ds)))\<rparr>)"
  using assms by (cases ds) (simp_all add: calculateScore_def Let_def split: prod.splits)

lemma length_pushHistory:
  "length (pushHistory v h) = (if length h < MAX_HISTORY then length h + 1 else length h)"
  by (simp add: pushHistory_def Let_def)


lemma historicalScores_calculateScore:
  "historicalScores (snd (calculateScore playerPosition debrisPositions s)) =
     pushHistory (fst (calculateScore playerPosition debrisPositions s)) (historicalScores s)"
  by (simp add: calculateScore_def Let_def split: option.splits list.splits prod.splits)

lemma forceScore_calculateScore:
  "forceScore (snd (calculateScore playerPosition debrisPositions s)) = forceScore s"
  by (simp add: calculateScore_def Let_def split: option.splits list.splits prod.splits)


subsection \<open>What one pass over the debris accumulates\<close>

lemma analyzeDebris_finite:
  assumes "distanceKm_of p d = Fin k"
  shows "analyzeDebris p (Fin a, ts) (i, d) =
           (Fin (a + claimed_contribution k),
            ts @ (if k < 100 then [\<lparr>index = i, distance = Fin k, threat = Fin ((100 - k) * (1 / 2))\<rparr>] else []))"
  using assms
  by (simp add: analyzeDebris_def claimed_contribution_def DANGER_RADIUS_def CRITICAL_RADIUS_def
      EXTREME_RADIUS_def DANGER_WEIGHT_def CRITICAL_BONUS_def EXTREME_BONUS_def js_sub_def)

lemma forEachDebris_finite:
  assumes "\<forall>d \<in> set ds. isFinite (distanceKm_of p d)"
  shows "forEachDebris p (Fin a, ts) (enumerate n ds) =
           (Fin (a + (\<Sum>d\<leftarrow>ds. claimed_contribution (fin_val (distanceKm_of p d)))),
            ts @ [\<lparr>index = i, distance = distanceKm_of p d,
                   threat = Fin ((100 - fin_val (distanceKm_of p d)) * (1 / 2))\<rparr>.
                  (i, d) \<leftarrow> enumerate n ds, fin_val (distanceKm_of p d) < 100])"
  using assms
proof (induction ds arbitrary: a ts n)
  case Nil
  then show ?case by simp
next
  case (Cons d ds)
  from Cons.prems obtain k where k: "distanceKm_of p d = Fin k"
    by (cases "distanceKm_of p d") auto
  from Cons.prems have rest: "\<forall>d \<in> set ds. isFinite (distanceKm_of p d)" by simp
  show ?case
    by (simp add: analyzeDebris_finite [OF k] Cons.IH [OF rest] k add.assoc)
qed


text \<open>The test positions are at 50, 3 and 200 km.\<close>

lemma sqrt_400: "sqrt (1 / 400) = 1 / 20"
  by (rule real_sqrt_unique) (simp_all add: power2_eq_square)

lemma sqrt_d3: "sqrt (9 / 1000000) = 3 / 1000"
  by (rule real_sqrt_unique) (simp_all add: power2_eq_square)

lemma sqrt_d200: "sqrt (1 / 25) = 1 / 5"
  by (rule real_sqrt_unique) (simp_all add: power2_eq_square)

lemma d50_km: "distanceKm_of p0 d50 = Fin 50"
  by (simp add: distanceKm_of_def distanceTo_def distanceToSquared_def p0_def d50_def js_sub_def sqrt_400)

lemma d3_km: "distanceKm_of p0 d3 = Fin 3"
  by (simp add: distanceKm_of_def distanceTo_def distanceToSquared_def p0_def d3_def js_sub_def sqrt_d3)

lemma d200_km: "distanceKm_of p0 d200 = Fin 200"
  by (simp add: distanceKm_of_def distanceTo_def distanceToSquared_def p0_def d200_def js_sub_def sqrt_d200)

lemma calculateScore_p0_d50:
  "calculateScore (Some p0) (Some [d50]) cts_init =
     (Fin 25, \<lparr>historicalScores = [Fin 25], forceScore = None,
               lastThreats = [\<lparr>index = 0, distance = Fin 50, threat = Fin 25\<rparr>]\<rparr>)"
  by (simp add: calculateScore_def scanDebris_def analyzeDebris_finite [OF d50_km] claimed_contribution_def
      cts_init_def Math_min_def pushHistory_def MAX_HISTORY_def sortThreats_def Let_def)


text \<open>
  C1. When every distance is finite, the accumulator before rounding and clamping is the
  sum of the per-object contributions (0 from 100 km on; otherwise \<open>(100 - d) * 0.5\<close>, plus
  50 below 10 km, plus 80 below 5 km), and the recorded threats are exactly the objects
  closer than 100 km, each with its index, its distance and its proximity contribution.
\<close>

theorem scanDebris_sum_of_contributions:
  assumes "\<forall>d \<in> set debrisPositions. isFinite (distanceKm_of playerPosition d)"
  shows "scanDebris playerPosition debrisPositions =
           (Fin (\<Sum>d\<leftarrow>debrisPositions. claimed_contribution (fin_val (distanceKm_of playerPosition d))),
            [\<lparr>index = i, distance = distanceKm_of playerPosition d,
              threat = Fin ((100 - fin_val (distanceKm_of playerPosition d)) * (1 / 2))\<rparr>.
             (i, d) \<leftarrow> enumerate 0 debrisPositions, fin_val (distanceKm_of playerPosition d) < 100]) \<and>
         (forceScore s = None \<and> debrisPositions \<noteq> [] \<longrightarrow>
            fst (calculateScore (Some playerPosition) (Some debrisPositions) s) =
              Math_min (Math_round (Fin (\<Sum>d\<leftarrow>debrisPositions.
                  claimed_contribution (fin_val (distanceKm_of playerPosition d))))) (Fin 100))"
proof -
  have scan: "scanDebris playerPosition debrisPositions =
           (Fin (\<Sum>d\<leftarrow>debrisPositions. claimed_contribution (fin_val (distanceKm_of playerPosition d))),
            [\<lparr>index = i, distance = distanceKm_of playerPosition d,
              threat = Fin ((100 - fin_val (distanceKm_of playerPosition d)) * (1 / 2))\<rparr>.
             (i, d) \<leftarrow> enumerate 0 debrisPositions, fin_val (distanceKm_of playerPosition d) < 100])"
    unfolding scanDebris_def using forEachDebris_finite [OF assms, of 0 "[]" 0] by simp
  have "fst (calculateScore (Some playerPosition) (Some debrisPositions) s) =
          Math_min (Math_round (fst (scanDebris playerPosition debrisPositions))) (Fin 100)"
    if "forceScore s = None" "debrisPositions \<noteq> []"
    by (simp add: calculateScore_live [OF that])
  with scan show ?thesis by simp
qed


text \<open>
  The theorem at three objects at 200, 50 and 3 km: the first contributes nothing, the
  second 25, the third 48.5 and both bonuses; the returned score is capped at 100.
\<close>

theorem scanDebris_sum_of_contributions_witness:
  "isFinite (distanceKm_of p0 d200) \<and> isFinite (distanceKm_of p0 d50) \<and>
   isFinite (distanceKm_of p0 d3) \<and>
   scanDebris p0 [d200, d50, d3] =
     (Fin (25 + (97 / 2 + 50 + 80)),
      [\<lparr>index = 1, distance = Fin 50, threat = Fin 25\<rparr>,
       \<lparr>index = 2, distance = Fin 3, threat = Fin (97 / 2)\<rparr>]) \<and>
   fst (calculateScore (Some p0) (Some [d200, d50, d3]) cts_init) = Fin 100"
proof -
  have h: "\<forall>d \<in> set [d200, d50, d3]. isFinite (distanceKm_of p0 d)"
    by (simp add: d200_km d50_km d3_km)
  show ?thesis
    using h scanDebris_sum_of_contributions [OF h, of cts_init]
    by (simp add: d200_km d50_km d3_km claimed_contribution_def cts_init_def Math_min_def)
qed


subsection \<open>The range of the returned score\<close>

lemma analyzeDebris_nonneg:
  assumes "0 \<le> a"
  shows "\<exists>b ts'. 0 \<le> b \<and> analyzeDebris p (Fin a, ts) item = (Fin b, ts')"
proof (cases item)
  case (Pair i d)
  show ?thesis
  proof (cases "distanceKm_of p d")
    case (Fin k)
    have "0 \<le> claimed_contribution k" by (simp add: claimed_contribution_def)
    with assms show ?thesis
      by (simp add: Pair analyzeDebris_finite [OF Fin])
  qed (use assms in \<open>simp_all add: Pair analyzeDebris_def\<close>)
qed

lemma forEachDebris_nonneg:
  assumes "0 \<le> a"
  shows "\<exists>b ts'. 0 \<le> b \<and> forEachDebris p (Fin a, ts) items = (Fin b, ts')"
  using assms
proof (induction items arbitrary: a ts)
  case Nil
  then show ?case by simp
next
  case (Cons item items)
  from analyzeDebris_nonneg [OF Cons.prems] obtain b ts'
    where b: "0 \<le> b" "analyzeDebris p (Fin a, ts) item = (Fin b, ts')" by blast
  from Cons.IH [OF b(1)] show ?case by (simp add: b(2))
qed

lemma isScore_clamp_round:
  assumes "0 \<le> a"
  shows "isScore (Math_min (Math_round (Fin a)) (Fin 100))"
proof -
  have "0 \<le> \<lfloor>a + 1 / 2\<rfloor>" using assms by simp
  then show ?thesis
    by (simp add: Math_min_def isScore_def)
qed


text \<open>
  Whenever the stored override, if any, is an integer between 0 and 100, so is the
  returned score; and \<open>setForceScore\<close> stores such an integer for every number but NaN.
\<close>

lemma calculateScore_range:
  assumes "\<And>f. forceScore s = Some f \<Longrightarrow> isScore f"
  shows "isScore (fst (calculateScore playerPosition debrisPositions s))"
proof (cases "forceScore s")
  case (Some f)
  with assms show ?thesis by (simp add: calculateScore_def)
next
  case None
  have zero: "isScore (Fin 0)" by (simp add: isScore_def)
  show ?thesis
  proof (cases playerPosition)
    case no_player: None
    with None zero show ?thesis by (simp add: calculateScore_def)
  next
    case (Some p)
    note player = this
    show ?thesis
    proof (cases debrisPositions)
      case no_list: None
      with None player zero show ?thesis by (simp add: calculateScore_def)
    next
      case (Some ds)
      show ?thesis
      proof (cases ds)
        case Nil
        with None player Some zero show ?thesis by (simp add: calculateScore_def)
      next
        case (Cons d ds')
        from forEachDebris_nonneg [of 0 p "[]" "enumerate 0 (d # ds')"]
        obtain b ts' where b: "0 \<le> b" "scanDebris p (d # ds') = (Fin b, ts')"
          unfolding scanDebris_def by auto
        from isScore_clamp_round [OF b(1)] show ?thesis
          by (simp add: calculateScore_def None player Some Cons b(2) Let_def)
      qed
    qed
  qed
qed

lemma setForceScore_range:
  assumes "\<not> isNaN v"
  shows "\<exists>f. forceScore (setForceScore (Some v) s) = Some f \<and> isScore f"
proof (cases v)
  case (Fin a)
  show ?thesis
    by (simp add: setForceScore_def Fin Math_min_def Math_max_def isScore_def)
qed (use assms in \<open>simp_all add: setForceScore_def Math_min_def Math_max_def isScore_def\<close>)


text \<open>
  C2. The returned score is meant to be an integer between 0 and 100 for every input, forced
  override included. \<open>setForceScore(NaN)\<close> passes the rounding and both clamps unchanged,
  and every later \<open>calculateScore\<close> call returns NaN, which is no such integer.
\<close>

theorem calculateScore_forced_NaN:
  "fst (calculateScore playerPosition debrisPositions (setForceScore (Some NaN) cts_init)) = NaN \<and>
   \<not> isScore (fst (calculateScore playerPosition debrisPositions (setForceScore (Some NaN) cts_init)))"
  by (simp add: calculateScore_def setForceScore_def Math_min_def Math_max_def isScore_def)


subsection \<open>One object at 50 km\<close>

text \<open>
  C3, as stated: with one debris object at 50 km and no override, the score is 25 and its
  status is Elevated. The score is 25, but the status of 25 is Nominal: Elevated starts
  at 31.
\<close>

theorem debris_50km_not_elevated:
  "\<not> (fst (calculateScore (Some p0) (Some [d50]) cts_init) = Fin 25 \<and>
      getScoreStatus (fst (calculateScore (Some p0) (Some [d50]) cts_init)) = ''ELEVATED'')"
  by (simp add: calculateScore_p0_d50 getScoreStatus_def js_ge_def)


text \<open>
  C3, amended: with exactly one debris object at 50 km from the player and no override
  active, \<open>calculateScore\<close> returns 25 and \<open>getScoreStatus\<close> of that score is Nominal.
\<close>

theorem debris_50km_nominal:
  assumes "distanceKm_of playerPosition debrisPos = Fin 50" and "forceScore s = None"
  shows "fst (calculateScore (Some playerPosition) (Some [debrisPos]) s) = Fin 25 \<and>
         getScoreStatus (fst (calculateScore (Some playerPosition) (Some [debrisPos]) s)) = ''NOMINAL''"
proof -
  have "scanDebris playerPosition [debrisPos] =
          (Fin 25, [\<lparr>index = 0, distance = Fin 50, threat = Fin 25\<rparr>])"
    by (simp add: scanDebris_def analyzeDebris_finite [OF assms(1)] claimed_contribution_def)
  then have "fst (calculateScore (Some playerPosition) (Some [debrisPos]) s) = Fin 25"
    by (simp add: calculateScore_live [OF assms(2)] Math_min_def)
  then show ?thesis
    by (simp add: getScoreStatus_def js_ge_def)
qed


text \<open>The amended statement at the player in the origin and the object at 50 km.\<close>

theorem debris_50km_nominal_witness:
  "distanceKm_of p0 d50 = Fin 50 \<and> forceScore cts_init = None \<and>
   fst (calculateScore (Some p0) (Some [d50]) cts_init) = Fin 25 \<and>
   getScoreStatus (fst (calculateScore (Some p0) (Some [d50]) cts_init)) = ''NOMINAL''"
proof -
  have f: "forceScore cts_init = None" by (simp add: cts_init_def)
  show ?thesis
    using debris_50km_nominal [OF d50_km f] d50_km f by blast
qed


subsection \<open>The score history\<close>

lemma length_runCall:
  "length (historicalScores (runCall s c)) =
     (if isCalc c \<and> length (historicalScores s) < MAX_HISTORY
      then length (historicalScores s) + 1 else length (historicalScores s))"
  by (cases c) (simp_all add: historicalScores_calculateScore length_pushHistory setForceScore_def split: option.splits)

lemma length_runCalls:
  "length (historicalScores s) \<le> MAX_HISTORY \<Longrightarrow>
   length (historicalScores (runCalls calls s)) =
     min MAX_HISTORY (length (historicalScores s) + length (filter isCalc calls))"
  unfolding runCalls_def
proof (induction calls arbitrary: s)
  case Nil
  then show ?case by simp
next
  case (Cons c calls)
  have le: "length (historicalScores (runCall s c)) \<le> MAX_HISTORY"
    using Cons.prems by (simp add: length_runCall)
  show ?case
    using Cons.prems by (simp add: Cons.IH [OF le] length_runCall)
qed


text \<open>
  On arrays of vectors, after any sequence of \<open>calculateScore\<close> and \<open>setForceScore\<close>
  calls on a fresh engine, the history holds \<open>min 120 n\<close> samples, where \<open>n\<close> is the
  number of \<open>calculateScore\<close> calls; a further call appends its score, and drops the
  oldest sample when the history is full.
\<close>

lemma history_length_typed_calls:
  "length (historicalScores (runCalls calls cts_init)) = min 120 (length (filter isCalc calls)) \<and>
   historicalScores (snd (calculateScore playerPosition debrisPositions (runCalls calls cts_init))) =
     (let h = historicalScores (runCalls calls cts_init);
          v = fst (calculateScore playerPosition debrisPositions (runCalls calls cts_init))
      in if length h < 120 then h @ [v] else tl h @ [v])"
proof -
  have len: "length (historicalScores (runCalls calls cts_init)) = min 120 (length (filter isCalc calls))"
    using length_runCalls [of cts_init calls] by (simp add: cts_init_def MAX_HISTORY_def)
  have "pushHistory v h = (if length h < 120 then h @ [v] else tl h @ [v])"
    if "length h \<le> 120" for v h
    using that by (cases h) (auto simp: pushHistory_def Let_def MAX_HISTORY_def)
  with len show ?thesis
    by (simp add: historicalScores_calculateScore Let_def)
qed

text \<open>
  On an array without \<open>null\<close> entries the call on nullable arrays is the call above.
\<close>

lemma forEachDebris_nullable_Some:
  "forEachDebris_nullable p acc (enumerate n (map Some ds)) = Inr (forEachDebris p acc (enumerate n ds))"
  by (induction ds arbitrary: acc n) simp_all

lemma calculateScore_nullable_typed:
  "calculateScore_nullable playerPosition (map_option (map Some) debrisPositions) s =
     Inr (calculateScore playerPosition debrisPositions s)"
proof (cases debrisPositions)
  case None
  then show ?thesis
    by (simp add: calculateScore_nullable_def calculateScore_def split: option.splits)
next
  case (Some ds)
  show ?thesis
  proof (cases ds)
    case Nil
    with Some show ?thesis
      by (simp add: calculateScore_nullable_def calculateScore_def split: option.splits)
  next
    case (Cons d ds')
    have fe: "forEachDebris_nullable p (analyzeDebris p (Fin 0, []) (0, d))
              (enumerate (Suc 0) (map Some ds')) = Inr (scanDebris p (d # ds'))" for p
      by (simp add: forEachDebris_nullable_Some scanDebris_def)
    show ?thesis
      by (simp add: calculateScore_nullable_def calculateScore_def Some Cons fe Let_def
          split: option.splits prod.splits)
  qed
qed

text \<open>
  A call on a nullable array either returns, and then the history has grown by the returned
  score as above, or throws and leaves the state as it was; the history never holds more
  than 120 samples.
\<close>

lemma calculateScore_nullable_returns:
  assumes "calculateScore_nullable playerPosition debrisPositions s = Inr (v, s')"
  shows "historicalScores s' = pushHistory v (historicalScores s)"
  using assms
  by (auto simp: calculateScore_nullable_def Let_def
      split: option.splits list.splits sum.splits prod.splits)

lemma stateAfter_throws:
  assumes "calculateScore_nullable playerPosition debrisPositions s = Inl e"
  shows "stateAfter playerPosition debrisPositions s = s"
  using assms by (simp add: stateAfter_def)

lemma length_stateAfter:
  assumes "length (historicalScores s) \<le> MAX_HISTORY"
  shows "length (historicalScores (stateAfter playerPosition debrisPositions s)) \<le> MAX_HISTORY"
proof (cases "calculateScore_nullable playerPosition debrisPositions s")
  case (Inl e)
  with assms show ?thesis by (simp add: stateAfter_def)
next
  case (Inr r)
  obtain v s' where r: "r = (v, s')" by (cases r)
  from calculateScore_nullable_returns [OF Inr [unfolded r]] assms show ?thesis
    by (simp add: stateAfter_def Inr r length_pushHistory)
qed

text \<open>
  C4. Every \<open>calculateScore\<close> call, whatever its arguments, is meant to add one sample
  to the history until it holds 120. A call without an override on a player position and
  the array \<open>[d50, null]\<close> throws in \<open>distanceTo\<close> before the push: on a fresh engine
  the history stays empty, and after one call that returned it stays at one sample.
\<close>

theorem null_debris_entry_adds_no_sample:
  "calculateScore_nullable (Some p0) (Some [Some d50, None]) cts_init = Inl TypeError \<and>
   length (historicalScores (stateAfter (Some p0) (Some [Some d50, None]) cts_init)) = 0 \<and>
   length (historicalScores (stateAfter (Some p0) (Some [Some d50]) cts_init)) = 1 \<and>
   length (historicalScores (stateAfter (Some p0) (Some [Some d50, None])
      (stateAfter (Some p0) (Some [Some d50]) cts_init))) = 1"
proof -
  have good: "stateAfter (Some p0) (Some [Some d50]) cts_init =
      \<lparr>historicalScores = [Fin 25], forceScore = None,
        lastThreats = [\<lparr>index = 0, distance = Fin 50, threat = Fin 25\<rparr>]\<rparr>"
    using calculateScore_nullable_typed [of "Some p0" "Some [d50]" cts_init]
    by (simp add: stateAfter_def calculateScore_p0_d50)
  have bad: "calculateScore_nullable (Some p0) (Some [Some d50, None]) s = Inl TypeError"
    if "forceScore s = None" for s
    using that by (simp add: calculateScore_nullable_def)
  have b0: "calculateScore_nullable (Some p0) (Some [Some d50, None]) cts_init = Inl TypeError"
    by (rule bad) (simp add: cts_init_def)
  have b1: "calculateScore_nullable (Some p0) (Some [Some d50, None])
      (stateAfter (Some p0) (Some [Some d50]) cts_init) = Inl TypeError"
    by (rule bad) (simp add: good)
  have l0: "length (historicalScores (stateAfter (Some p0) (Some [Some d50, None]) cts_init)) = 0"
    by (simp only: stateAfter_throws [OF b0]) (simp add: cts_init_def)
  have l1: "length (historicalScores (stateAfter (Some p0) (Some [Some d50]) cts_init)) = 1"
    by (simp add: good)
  have l2: "length (historicalScores (stateAfter (Some p0) (Some [Some d50, None])
      (stateAfter (Some p0) (Some [Some d50]) cts_init))) = 1"
    by (simp only: stateAfter_throws [OF b1] l1)
  from b0 l0 l1 l2 show ?thesis by blast
qed


subsection \<open>Invalid inputs\<close>

text \<open>
  Without an override, a call with a missing player position or a missing or empty debris
  list returns 0 and appends 0 to the history; it leaves the closest-threats list as it was.
\<close>

lemma calculateScore_invalid_lastThreats:
  assumes "forceScore s = None"
    and "playerPosition = None \<or> debrisPositions = None \<or> debrisPositions = Some []"
  shows "getClosestThreats (snd (calculateScore playerPosition debrisPositions s)) = lastThreats s"
  by (simp add: calculateScore_invalid [OF assms] getClosestThreats_def)


text \<open>
  C5. Such a call is meant to leave the closest-threats list empty. After a call that
  recorded the object at 50 km, a call with an empty debris list returns 0 and
  \<open>getClosestThreats\<close> still reports that object.
\<close>

theorem invalid_input_keeps_stale_threats:
  "fst (calculateScore (Some p0) (Some []) (snd (calculateScore (Some p0) (Some [d50]) cts_init))) = Fin 0 \<and>
   getClosestThreats (snd (calculateScore (Some p0) (Some [])
       (snd (calculateScore (Some p0) (Some [d50]) cts_init)))) =
     [\<lparr>index = 0, distance = Fin 50, threat = Fin 25\<rparr>]"
  by (simp add: calculateScore_p0_d50 calculateScore_invalid getClosestThreats_def)


subsection \<open>The forced override\<close>






section \<open>Properties of the orbital propagator\<close>


subsection \<open>Conversion to scene coordinates\<close>

lemma eciToScenePosition_None:
  assumes "\<not> (finiteNumber (ex e) \<and> finiteNumber (ey e) \<and> finiteNumber (ez e))"
  shows "eciToScenePosition three (Some e) = None"
proof -
  have nf: "typeof v \<noteq> ''number'' \<or> isNaN (toNumber v) \<or> \<not> isFinite (toNumber v)"
    if "\<not> finiteNumber v" for v
    using that by (cases v; cases "toNumber v") (auto simp: finiteNumber_def)
  from assms nf show ?thesis
    unfolding eciToScenePosition_def by auto
qed

lemma eciToScenePosition_finite:
  assumes "ex e = JNumber (Fin a)" "ey e = JNumber (Fin b)" "ez e = JNumber (Fin c)"
  shows "eciToScenePosition three (Some e) =
     (if three then Some \<lparr>vx = Fin (a / 1000), vy = Fin (c / 1000), vz = Fin (- b / 1000)\<rparr> else None)"
  using assms by (simp add: eciToScenePosition_def SCALE_FACTOR_def)


text \<open>
  C8, as stated: every position with three finite components is converted to
  \<open>(x / 1000, z / 1000, - y / 1000)\<close>. When the global \<open>THREE\<close> is not defined, the
  function returns \<open>null\<close> for the finite position (7000, 1000, 2000) as for any other.
\<close>

theorem eciToScenePosition_needs_THREE:
  "eciToScenePosition False (Some e0) \<noteq> Some \<lparr>vx = Fin 7, vy = Fin 2, vz = Fin (- 1)\<rparr>"
  by (simp add: eciToScenePosition_def e0_def)


text \<open>
  C8, amended: the conversion returns none when the position is missing and whenever a
  component is missing, NaN or infinite; for three finite components \<open>x\<close>, \<open>y\<close>,
  \<open>z\<close> it returns the vector \<open>(x / 1000, z / 1000, - y / 1000)\<close> when the global
  \<open>THREE\<close> is defined, and none when it is not.
\<close>

theorem eciToScenePosition_axes:
  "eciToScenePosition three None = None \<and>
   (\<not> (finiteNumber (ex e) \<and> finiteNumber (ey e) \<and> finiteNumber (ez e)) \<longrightarrow>
      eciToScenePosition three (Some e) = None) \<and>
   (ex e = JNumber (Fin a) \<and> ey e = JNumber (Fin b) \<and> ez e = JNumber (Fin c) \<longrightarrow>
      eciToScenePosition three (Some e) =
        (if three then Some \<lparr>vx = Fin (a / 1000), vy = Fin (c / 1000), vz = Fin (- b / 1000)\<rparr> else None))"
  using eciToScenePosition_None [of e three] eciToScenePosition_finite [of e a b c three]
  by (simp add: eciToScenePosition_def)


text \<open>The amended statement at the finite position and at the one with a NaN.\<close>

theorem eciToScenePosition_axes_witness:
  "eciToScenePosition True (Some e0) = Some \<lparr>vx = Fin 7, vy = Fin 2, vz = Fin (- 1)\<rparr> \<and>
   eciToScenePosition True (Some e_nan) = None"
  using eciToScenePosition_axes [of True e0 7000 1000 2000] eciToScenePosition_axes [of True e_nan 0 0 0]
  by (simp add: e0_def e_nan_def finiteNumber_def)


subsection \<open>The cap on active satellites\<close>

lemma activeLoop_eq:
  assumes "limit \<le> length (activeSatellites st)"
  shows "activeLoop lib three st d limit i positions =
           positions @ map (\<lambda>r. eciToScenePosition three (Some (position r)))
             (List.map_filter (\<lambda>s. propagate lib st (satrec s) d)
                (take (limit - i) (drop i (activeSatellites st))))"
  using assms
proof (induction lib three st d limit i positions rule: activeLoop.induct)
  case (1 lib three st d limit i positions)
  show ?case
  proof (cases "i < limit")
    case False
    then show ?thesis by (simp add: List.map_filter_simps)
  next
    case True
    with "1.prems" have il: "i < length (activeSatellites st)" by simp
    from True have lim: "limit - i = Suc (limit - Suc i)" by simp
    have dr: "drop i (activeSatellites st) = (activeSatellites st ! i) # drop (Suc i) (activeSatellites st)"
      using il by (simp add: Cons_nth_drop_Suc)
    show ?thesis
    proof (cases "propagate lib st (satrec (activeSatellites st ! i)) d")
      case None
      with True "1.IH"(1) [OF True None "1.prems"] show ?thesis
        by (subst activeLoop.simps) (simp add: lim dr List.map_filter_simps)
    next
      case (Some r)
      with True "1.IH"(2) [OF True Some "1.prems"] show ?thesis
        by (subst activeLoop.simps) (simp add: lim dr List.map_filter_simps)
    qed
  qed
qed

lemma length_map_filter_le: "length (List.map_filter f xs) \<le> length xs"
  by (induction xs) (auto simp: List.map_filter_simps split: option.splits)

lemma map_filter_replicate:
  "List.map_filter f (replicate n v) = (case f v of None \<Rightarrow> [] | Some w \<Rightarrow> replicate n w)"
  by (induction n) (simp_all add: List.map_filter_simps split: option.splits)


text \<open>
  C10. \<open>getActiveSatellitePositions\<close> converts the propagation results of the first 500
  stored active satellites, in order, skipping those without a result; satellites beyond
  the first 500 contribute nothing, and the list has at most 500 entries.
\<close>

theorem getActiveSatellitePositions_capped:
  "getActiveSatellitePositions lib three st d =
     map (\<lambda>r. eciToScenePosition three (Some (position r)))
       (List.map_filter (\<lambda>s. propagate lib st (satrec s) d) (take 500 (activeSatellites st))) \<and>
   length (getActiveSatellitePositions lib three st d) \<le> 500 \<and>
   length (getActiveSatellitePositions lib three st d) \<le> length (activeSatellites st)"
proof -
  let ?limit = "min (length (activeSatellites st)) MAX_ACTIVE_RENDER"
  have tk: "take ?limit (activeSatellites st) = take 500 (activeSatellites st)"
    by (simp add: MAX_ACTIVE_RENDER_def min_def)
  have eq: "getActiveSatellitePositions lib three st d =
     map (\<lambda>r. eciToScenePosition three (Some (position r)))
       (List.map_filter (\<lambda>s. propagate lib st (satrec s) d) (take 500 (activeSatellites st)))"
    unfolding getActiveSatellitePositions_def Let_def
    using activeLoop_eq [of ?limit st lib three d 0 "[]"] tk by simp
  have "length (List.map_filter (\<lambda>s. propagate lib st (satrec s) d) (take 500 (activeSatellites st)))
          \<le> length (take 500 (activeSatellites st))"
    by (rule length_map_filter_le)
  with eq show ?thesis by simp
qed


text \<open>The theorem at 600 stored satellites: 500 positions come back.\<close>

theorem getActiveSatellitePositions_capped_witness:
  "length (activeSatellites orbital0) = 600 \<and>
   getActiveSatellitePositions lib0 True orbital0 0 =
     replicate 500 (Some \<lparr>vx = Fin 7, vy = Fin 0, vz = Fin 0\<rparr>)"
  using getActiveSatellitePositions_capped [of lib0 True orbital0 0]
  by (simp add: orbital0_def map_filter_replicate propagate_def lib0_def eciToScenePosition_def
      SCALE_FACTOR_def Let_def)

section \<open>Properties of the scheduler\<close>

subsection \<open>What each block of a frame leaves alone\<close>

lemma advanceClock_currentDate:
  "currentDate (advanceClock fl now s) =
     TimeClip (fl (real_of_int (currentDate s) +
       fl (fl (fl (real_of_int (now - lastUpdateTime s) / 1000) * 1000) * timeMultiplier s)))"
  by (simp add: advanceClock_def Let_def)

lemma advanceClock_fields:
  "isRunning (advanceClock fl now s) = isRunning s"
  "lastUpdateTime (advanceClock fl now s) = now"
  "timeMultiplier (advanceClock fl now s) = timeMultiplier s"
  "lastCTSUpdate (advanceClock fl now s) = lastCTSUpdate s"
  "lastDebrisUpdate (advanceClock fl now s) = lastDebrisUpdate s"
  "orbital (advanceClock fl now s) = orbital s"
  "cts (advanceClock fl now s) = cts s"
  "scene (advanceClock fl now s) = scene s"
  by (simp_all add: advanceClock_def)

lemma updateCTSScore_fields:
  "isRunning (updateCTSScore lib three s) = isRunning s"
  "currentDate (updateCTSScore lib three s) = currentDate s"
  "lastUpdateTime (updateCTSScore lib three s) = lastUpdateTime s"
  "timeMultiplier (updateCTSScore lib three s) = timeMultiplier s"
  "lastCTSUpdate (updateCTSScore lib three s) = lastCTSUpdate s"
  "lastDebrisUpdate (updateCTSScore lib three s) = lastDebrisUpdate s"
  "orbital (updateCTSScore lib three s) = orbital s"
  "scene (updateCTSScore lib three s) = scene s"
  by (simp_all add: updateCTSScore_def Let_def split: option.splits)

lemma updateCTSScore_cong:
  assumes "orbital a = orbital b" "currentDate a = currentDate b" "cts a = cts b"
  shows "cts (updateCTSScore lib three a) = cts (updateCTSScore lib three b)"
  using assms by (simp add: updateCTSScore_def Let_def split: option.splits)

lemma updateDebris_cong:
  assumes "orbital a = orbital b" "currentDate a = currentDate b"
    "debrisMeshes (scene a) = debrisMeshes (scene b)"
  shows "debrisMeshes (scene (updateDebris lib three a)) = debrisMeshes (scene (updateDebris lib three b))"
  using assms by (simp add: updateDebris_def Let_def)

lemma playerStep_fields:
  "isRunning (playerStep lib three s) = isRunning s"
  "currentDate (playerStep lib three s) = currentDate s"
  "lastUpdateTime (playerStep lib three s) = lastUpdateTime s"
  "timeMultiplier (playerStep lib three s) = timeMultiplier s"
  "lastCTSUpdate (playerStep lib three s) = lastCTSUpdate s"
  "lastDebrisUpdate (playerStep lib three s) = lastDebrisUpdate s"
  "orbital (playerStep lib three s) = orbital s"
  "cts (playerStep lib three s) = cts s"
  "debrisMeshes (scene (playerStep lib three s)) = debrisMeshes (scene s)"
  by (simp_all add: playerStep_def updatePlayer_def split: option.splits)

lemma debrisStep_fields:
  "isRunning (debrisStep lib three now s) = isRunning s"
  "currentDate (debrisStep lib three now s) = currentDate s"
  "lastUpdateTime (debrisStep lib three now s) = lastUpdateTime s"
  "timeMultiplier (debrisStep lib three now s) = timeMultiplier s"
  "lastCTSUpdate (debrisStep lib three now s) = lastCTSUpdate s"
  "orbital (debrisStep lib three now s) = orbital s"
  "cts (debrisStep lib three now s) = cts s"
  "playerMesh (scene (debrisStep lib three now s)) = playerMesh (scene s)"
  by (simp_all add: debrisStep_def updateDebris_def Let_def)

lemma activeStep_fields:
  "isRunning (activeStep lib three now s) = isRunning s"
  "currentDate (activeStep lib three now s) = currentDate s"
  "lastUpdateTime (activeStep lib three now s) = lastUpdateTime s"
  "timeMultiplier (activeStep lib three now s) = timeMultiplier s"
  "lastCTSUpdate (activeStep lib three now s) = lastCTSUpdate s"
  "lastDebrisUpdate (activeStep lib three now s) = lastDebrisUpdate s"
  "orbital (activeStep lib three now s) = orbital s"
  "cts (activeStep lib three now s) = cts s"
  "playerMesh (scene (activeStep lib three now s)) = playerMesh (scene s)"
  "debrisMeshes (scene (activeStep lib three now s)) = debrisMeshes (scene s)"
  by (simp_all add: activeStep_def updateActiveSatellites_def Let_def)

lemma ctsStep_fields:
  "isRunning (ctsStep lib three now s) = isRunning s"
  "currentDate (ctsStep lib three now s) = currentDate s"
  "lastUpdateTime (ctsStep lib three now s) = lastUpdateTime s"
  "timeMultiplier (ctsStep lib three now s) = timeMultiplier s"
  "lastDebrisUpdate (ctsStep lib three now s) = lastDebrisUpdate s"
  "orbital (ctsStep lib three now s) = orbital s"
  "scene (ctsStep lib three now s) = scene s"
  by (simp_all add: ctsStep_def updateCTSScore_fields)

lemma uiStep_fields:
  "isRunning (uiStep now s) = isRunning s"
  "currentDate (uiStep now s) = currentDate s"
  "lastUpdateTime (uiStep now s) = lastUpdateTime s"
  "timeMultiplier (uiStep now s) = timeMultiplier s"
  "lastCTSUpdate (uiStep now s) = lastCTSUpdate s"
  "lastDebrisUpdate (uiStep now s) = lastDebrisUpdate s"
  "orbital (uiStep now s) = orbital s"
  "cts (uiStep now s) = cts s"
  "playerMesh (scene (uiStep now s)) = playerMesh (scene s)"
  "debrisMeshes (scene (uiStep now s)) = debrisMeshes (scene s)"
  by (simp_all add: uiStep_def updateUI_def)

lemma render_fields:
  "isRunning (render s) = isRunning s"
  "currentDate (render s) = currentDate s"
  "lastUpdateTime (render s) = lastUpdateTime s"
  "timeMultiplier (render s) = timeMultiplier s"
  "lastCTSUpdate (render s) = lastCTSUpdate s"
  "lastDebrisUpdate (render s) = lastDebrisUpdate s"
  "orbital (render s) = orbital s"
  "cts (render s) = cts s"
  "playerMesh (scene (render s)) = playerMesh (scene s)"
  "debrisMeshes (scene (render s)) = debrisMeshes (scene s)"
  by (simp_all add: render_def)

lemmas frame_fields = advanceClock_currentDate advanceClock_fields playerStep_fields debrisStep_fields activeStep_fields
  ctsStep_fields uiStep_fields render_fields


subsection \<open>The clock\<close>

lemma animate_clock:
  "currentDate (animate fl lib three now s) =
     TimeClip (fl (real_of_int (currentDate s) +
       fl (fl (fl (real_of_int (now - lastUpdateTime s) / 1000) * 1000) * timeMultiplier s)))"
  "lastUpdateTime (animate fl lib three now s) = now"
  "timeMultiplier (animate fl lib three now s) = timeMultiplier s"
  "isRunning (animate fl lib three now s) = isRunning s"
  "orbital (animate fl lib three now s) = orbital s"
  by (simp_all add: animate_def frame_fields)

lemma frames_clock:
  assumes "currentDate a = currentDate b" "lastUpdateTime a = lastUpdateTime b"
    "timeMultiplier a = timeMultiplier b"
  shows "currentDate (frames fl lib three nows a) = currentDate (frames fl lib three nows b)"
  using assms unfolding frames_def
proof (induction nows arbitrary: a b)
  case Nil
  then show ?case by simp
next
  case (Cons now nows)
  show ?case
    using Cons.prems by (simp add: Cons.IH [of "animate fl lib three now a" "animate fl lib three now b"] animate_clock)
qed

lemma frames_orbital: "orbital (frames fl lib three nows s) = orbital s"
  unfolding frames_def by (induction nows arbitrary: s) (simp_all add: animate_clock)


subsection \<open>Paused and running frames\<close>

lemma animate_paused:
  assumes "\<not> isRunning s"
  shows "cts (animate fl lib three now s) = cts s"
    and "playerMesh (scene (animate fl lib three now s)) = playerMesh (scene s)"
    and "debrisMeshes (scene (animate fl lib three now s)) = debrisMeshes (scene s)"
    and "lastCTSUpdate (animate fl lib three now s) = lastCTSUpdate s"
    and "lastDebrisUpdate (animate fl lib three now s) = lastDebrisUpdate s"
proof -
  have a: "\<not> isRunning (advanceClock fl now s)" using assms by (simp add: frame_fields)
  have p: "playerStep lib three (advanceClock fl now s) = advanceClock fl now s"
    using a by (simp add: playerStep_def)
  have d: "debrisStep lib three now (advanceClock fl now s) = advanceClock fl now s"
    using a by (simp add: debrisStep_def)
  have r: "\<not> isRunning (activeStep lib three now (advanceClock fl now s))"
    using a by (simp add: frame_fields)
  have c: "ctsStep lib three now (activeStep lib three now (advanceClock fl now s)) =
           activeStep lib three now (advanceClock fl now s)"
    using r by (simp add: ctsStep_def)
  have u: "uiStep now (activeStep lib three now (advanceClock fl now s)) =
           activeStep lib three now (advanceClock fl now s)"
    using r by (simp add: uiStep_def)
  have eq: "animate fl lib three now s = render (activeStep lib three now (advanceClock fl now s))"
    by (simp add: animate_def p d c u)
  show "cts (animate fl lib three now s) = cts s"
    and "playerMesh (scene (animate fl lib three now s)) = playerMesh (scene s)"
    and "debrisMeshes (scene (animate fl lib three now s)) = debrisMeshes (scene s)"
    and "lastCTSUpdate (animate fl lib three now s) = lastCTSUpdate s"
    and "lastDebrisUpdate (animate fl lib three now s) = lastDebrisUpdate s"
    by (simp_all add: eq frame_fields)
qed

lemma frames_paused:
  assumes "\<not> isRunning s"
  shows "cts (frames fl lib three nows s) = cts s \<and>
         playerMesh (scene (frames fl lib three nows s)) = playerMesh (scene s) \<and>
         debrisMeshes (scene (frames fl lib three nows s)) = debrisMeshes (scene s) \<and>
         lastCTSUpdate (frames fl lib three nows s) = lastCTSUpdate s \<and>
         lastDebrisUpdate (frames fl lib three nows s) = lastDebrisUpdate s \<and>
         \<not> isRunning (frames fl lib three nows s)"
  using assms unfolding frames_def
proof (induction nows arbitrary: s)
  case Nil
  then show ?case by simp
next
  case (Cons now nows)
  have r: "\<not> isRunning (animate fl lib three now s)" using Cons.prems by (simp add: animate_clock)
  from Cons.IH [OF r] show ?case
    by (simp add: animate_paused [OF Cons.prems])
qed

lemma animate_running_cts:
  assumes "isRunning s" "now - lastCTSUpdate s > 100"
  shows "cts (animate fl lib three now s) = cts (updateCTSScore lib three (advanceClock fl now s))"
    and "lastCTSUpdate (animate fl lib three now s) = now"
proof -
  let ?x = "activeStep lib three now (debrisStep lib three now (playerStep lib three (advanceClock fl now s)))"
  have run: "isRunning ?x" using assms(1) by (simp add: frame_fields)
  have due: "now - lastCTSUpdate ?x > CTS_UPDATE_INTERVAL"
    using assms(2) by (simp add: frame_fields debrisStep_def updateDebris_def Let_def CTS_UPDATE_INTERVAL_def)
  have c: "ctsStep lib three now ?x = (updateCTSScore lib three ?x)\<lparr>lastCTSUpdate := now\<rparr>"
    using run due by (simp add: ctsStep_def)
  have "cts (updateCTSScore lib three ?x) = cts (updateCTSScore lib three (advanceClock fl now s))"
    by (rule updateCTSScore_cong) (simp_all add: frame_fields)
  then show "cts (animate fl lib three now s) = cts (updateCTSScore lib three (advanceClock fl now s))"
    by (simp add: animate_def c frame_fields)
  show "lastCTSUpdate (animate fl lib three now s) = now"
    by (simp add: animate_def c frame_fields)
qed

lemma animate_running_debris:
  assumes "isRunning s" "now - lastDebrisUpdate s > 100"
  shows "debrisMeshes (scene (animate fl lib three now s)) =
           debrisMeshes (scene (updateDebris lib three (advanceClock fl now s)))"
    and "lastDebrisUpdate (animate fl lib three now s) = now"
proof -
  let ?x = "playerStep lib three (advanceClock fl now s)"
  have run: "isRunning ?x" using assms(1) by (simp add: frame_fields)
  have due: "now - lastDebrisUpdate ?x > DEBRIS_UPDATE_INTERVAL"
    using assms(2) by (simp add: frame_fields DEBRIS_UPDATE_INTERVAL_def)
  have d: "debrisStep lib three now ?x = (updateDebris lib three ?x)\<lparr>lastDebrisUpdate := now\<rparr>"
    using run due by (simp add: debrisStep_def)
  have "debrisMeshes (scene (updateDebris lib three ?x)) =
        debrisMeshes (scene (updateDebris lib three (advanceClock fl now s)))"
    by (rule updateDebris_cong) (simp_all add: frame_fields)
  then show "debrisMeshes (scene (animate fl lib three now s)) =
           debrisMeshes (scene (updateDebris lib three (advanceClock fl now s)))"
    by (simp add: animate_def d frame_fields)
  show "lastDebrisUpdate (animate fl lib three now s) = now"
    by (simp add: animate_def d frame_fields)
qed


text \<open>In the test state a scoring update finds the debris object at 50 km.\<close>

lemma player0_debris0_km:
  "distanceKm_of \<lparr>vx = Fin 7, vy = Fin 0, vz = Fin 0\<rparr> \<lparr>vx = Fin (141 / 20), vy = Fin 0, vz = Fin 0\<rparr> = Fin 50"
  by (simp add: distanceKm_of_def distanceTo_def distanceToSquared_def js_sub_def sqrt_400)

lemma orbital0_positions:
  "getPlayerPosition lib0 True orbital0 d = Some \<lparr>vx = Fin 7, vy = Fin 0, vz = Fin 0\<rparr>"
  "getDebrisPositions lib0 True orbital0 d = [Some \<lparr>vx = Fin (141 / 20), vy = Fin 0, vz = Fin 0\<rparr>]"
  by (simp_all add: getPlayerPosition_def getDebrisPositions_def pushScenePosition_def propagate_def
      lib0_def orbital0_def eciToScenePosition_def SCALE_FACTOR_def Let_def)

lemma updateCTSScore_orbital0:
  assumes "orbital a = orbital0" "cts a = cts_init"
  shows "historicalScores (cts (updateCTSScore lib0 True a)) = [Fin 25]"
proof -
  have sc: "scanDebris \<lparr>vx = Fin 7, vy = Fin 0, vz = Fin 0\<rparr> [\<lparr>vx = Fin (141 / 20), vy = Fin 0, vz = Fin 0\<rparr>] =
          (Fin 25, [\<lparr>index = 0, distance = Fin 50, threat = Fin 25\<rparr>])"
    by (simp add: scanDebris_def analyzeDebris_finite [OF player0_debris0_km] claimed_contribution_def)
  have "calculateScore_nullable (Some \<lparr>vx = Fin 7, vy = Fin 0, vz = Fin 0\<rparr>)
          (Some [Some \<lparr>vx = Fin (141 / 20), vy = Fin 0, vz = Fin 0\<rparr>]) cts_init =
        Inr (calculateScore (Some \<lparr>vx = Fin 7, vy = Fin 0, vz = Fin 0\<rparr>)
          (Some [\<lparr>vx = Fin (141 / 20), vy = Fin 0, vz = Fin 0\<rparr>]) cts_init)"
    using calculateScore_nullable_typed [of "Some \<lparr>vx = Fin 7, vy = Fin 0, vz = Fin 0\<rparr>"
        "Some [\<lparr>vx = Fin (141 / 20), vy = Fin 0, vz = Fin 0\<rparr>]" cts_init]
    by simp
  then show ?thesis
    by (simp add: updateCTSScore_def assms orbital0_positions stateAfter_def calculateScore_def
        cts_init_def sc Math_min_def pushHistory_def MAX_HISTORY_def Let_def)
qed


text \<open>
  While the running flag is false, a frame runs no player update, no debris refresh and no
  scoring: the engine state with its history, the player and debris positions of the scene
  and the time stamps of the last debris and scoring updates stay as they were. A pause,
  any number of frames and a resume leave the engine state as it was and the clock where
  the same frames would have put it without the pause. In a running state, a frame more
  than 100 ms after the last scoring update runs the scoring update at the new virtual
  time, and likewise the debris refresh.
\<close>

lemma pause_gates_updates:
  "(\<not> isRunning s \<longrightarrow>
      cts (animate fl lib three now s) = cts s \<and>
      playerMesh (scene (animate fl lib three now s)) = playerMesh (scene s) \<and>
      debrisMeshes (scene (animate fl lib three now s)) = debrisMeshes (scene s) \<and>
      lastCTSUpdate (animate fl lib three now s) = lastCTSUpdate s \<and>
      lastDebrisUpdate (animate fl lib three now s) = lastDebrisUpdate s \<and>
      \<not> isRunning (animate fl lib three now s)) \<and>
   cts (resume (frames fl lib three nows (pause s))) = cts s \<and>
   currentDate (resume (frames fl lib three nows (pause s))) = currentDate (frames fl lib three nows s) \<and>
   isRunning (resume (frames fl lib three nows (pause s))) \<and>
   (isRunning s \<and> now - lastCTSUpdate s > 100 \<longrightarrow>
      cts (animate fl lib three now s) = cts (updateCTSScore lib three (advanceClock fl now s)) \<and>
      lastCTSUpdate (animate fl lib three now s) = now) \<and>
   (isRunning s \<and> now - lastDebrisUpdate s > 100 \<longrightarrow>
      debrisMeshes (scene (animate fl lib three now s)) =
        debrisMeshes (scene (updateDebris lib three (advanceClock fl now s))) \<and>
      lastDebrisUpdate (animate fl lib three now s) = now)"
proof -
  have p: "\<not> isRunning (pause s)" by (simp add: pause_def)
  have c1: "cts (resume (frames fl lib three nows (pause s))) = cts s"
    using frames_paused [OF p, of fl lib three nows] by (simp add: resume_def pause_def)
  have c2: "currentDate (resume (frames fl lib three nows (pause s))) = currentDate (frames fl lib three nows s)"
    using frames_clock [of "pause s" s fl lib three nows] by (simp add: resume_def pause_def)
  have c3: "isRunning (resume (frames fl lib three nows (pause s)))" by (simp add: resume_def)
  show ?thesis
    using c1 c2 c3 animate_paused [of s fl lib three now] animate_clock(4) [of fl lib three now s]
      animate_running_cts [of s now fl lib three] animate_running_debris [of s now fl lib three]
    by blast
qed

text \<open>
  In the test state: a pause over three frames leaves the engine untouched, and the frame
  after the resume refreshes the debris and scores the object at 50 km.
\<close>

lemma pause_resume_example:
  "cts (animate fl lib0 True 16 (pause app0)) = cts_init \<and>
   cts (resume (frames fl lib0 True [16, 33, 150] (pause app0))) = cts_init \<and>
   historicalScores (cts (animate fl lib0 True 200 (resume (frames fl lib0 True [16, 33, 150] (pause app0))))) =
     [Fin 25] \<and>
   debrisMeshes (scene (animate fl lib0 True 200 (resume (frames fl lib0 True [16, 33, 150] (pause app0))))) =
     [Some \<lparr>vx = Fin (141 / 20), vy = Fin 0, vz = Fin 0\<rparr>]"
proof -
  let ?S = "resume (frames fl lib0 True [16, 33, 150] (pause app0))"
  have p: "\<not> isRunning (pause app0)" by (simp add: pause_def)
  have d0: "cts (pause app0) = cts_init" "cts app0 = cts_init"
    by (simp_all add: pause_def app0_def)
  have run: "isRunning ?S" by (simp add: resume_def)
  have due: "200 - lastCTSUpdate ?S > 100"
    using frames_paused [OF p, of fl lib0 True "[16, 33, 150]"] by (simp add: resume_def pause_def app0_def)
  have dued: "200 - lastDebrisUpdate ?S > 100"
    using frames_paused [OF p, of fl lib0 True "[16, 33, 150]"] by (simp add: resume_def pause_def app0_def)
  have orb: "orbital (advanceClock fl 200 ?S) = orbital0"
    by (simp add: advanceClock_fields resume_def frames_orbital pause_def app0_def)
  note paused = pause_gates_updates [of "pause app0" fl lib0 True 16 "[16, 33, 150]"]
  note cycle = pause_gates_updates [of app0 fl lib0 True 16 "[16, 33, 150]"]
  note resumed = pause_gates_updates [of ?S fl lib0 True 200 "[]"]
  have c: "cts ?S = cts_init" using cycle d0 by simp
  have ca: "cts (advanceClock fl 200 ?S) = cts_init" by (simp add: advanceClock_fields c)
  have "cts (animate fl lib0 True 200 ?S) = cts (updateCTSScore lib0 True (advanceClock fl 200 ?S))"
    using resumed run due by blast
  then have h: "historicalScores (cts (animate fl lib0 True 200 ?S)) = [Fin 25]"
    by (simp only: updateCTSScore_orbital0 [OF orb ca])
  have "debrisMeshes (scene (animate fl lib0 True 200 ?S)) =
          debrisMeshes (scene (updateDebris lib0 True (advanceClock fl 200 ?S)))"
    using resumed run dued by blast
  then have m: "debrisMeshes (scene (animate fl lib0 True 200 ?S)) =
          [Some \<lparr>vx = Fin (141 / 20), vy = Fin 0, vz = Fin 0\<rparr>]"
    by (simp add: updateDebris_def orb orbital0_positions)
  have a2: "cts (animate fl lib0 True 16 (pause app0)) = cts_init"
    using paused p d0 by simp
  from a2 c h m show ?thesis by blast
qed

subsection \<open>The clock at a fractional multiplier\<close>

lemma doubleRounding_bounds:
  assumes "doubleRounding fl" "1 / 1000 \<le> lo" "lo \<le> x" "x \<le> hi" "hi \<le> 1000000"
  shows "lo - hi / 1000000 \<le> fl x" and "fl x \<le> hi + hi / 1000000"
proof -
  have x0: "0 \<le> x" "1 / 1000 \<le> \<bar>x\<bar>" "\<bar>x\<bar> \<le> 1000000" using assms by simp_all
  have "\<bar>fl x - x\<bar> \<le> \<bar>x\<bar> / 2 ^ 53"
    using assms(1) x0(2,3) by (simp add: doubleRounding_def)
  moreover have "\<bar>x\<bar> / 2 ^ 53 \<le> x / 1000000"
    using x0(1) by (simp add: field_simps)
  moreover have "x / 1000000 \<le> hi / 1000000"
    using assms(4) by simp
  ultimately have e: "\<bar>fl x - x\<bar> \<le> hi / 1000000" by linarith
  from e assms show "lo - hi / 1000000 \<le> fl x" by linarith
  from e assms show "fl x \<le> hi + hi / 1000000" by linarith
qed

lemma TimeClip_between:
  assumes "real_of_int k \<le> t" "t < real_of_int k + 1" "0 \<le> k"
  shows "TimeClip t = k"
proof -
  have "0 \<le> t" using assms by simp
  moreover have "\<lfloor>t\<rfloor> = k" using assms by (simp add: floor_eq_iff)
  ultimately show ?thesis by (simp add: TimeClip_def)
qed

text \<open>
  At a multiplier of about 0.1 and the clock at 1000, a frame after 16 ms hands
  \<open>new Date\<close> a sum near 1001.6 and one after 7 ms a sum near 1000.7, whatever the
  rounding.
\<close>

lemma slow_frame_16:
  assumes dr: "doubleRounding fl" and m: "999 / 10000 \<le> m" "m \<le> 1001 / 10000"
  shows "TimeClip (fl (real_of_int 1000 + fl (fl (fl (real_of_int 16 / 1000) * 1000) * m))) = 1001"
proof -
  let ?d1 = "fl (real_of_int 16 / 1000)"
  let ?d2 = "fl (?d1 * 1000)"
  let ?d3 = "fl (?d2 * m)"
  let ?t = "fl (real_of_int 1000 + ?d3)"
  have d1: "159 / 10000 \<le> ?d1" "?d1 \<le> 161 / 10000"
    using doubleRounding_bounds [OF dr, of "16 / 1000" "real_of_int 16 / 1000" "16 / 1000"] by simp_all
  have d2: "158 / 10 \<le> ?d2" "?d2 \<le> 162 / 10"
    using doubleRounding_bounds [OF dr, of "159 / 10" "?d1 * 1000" "161 / 10"] d1 by simp_all
  have lo3: "(158 / 10) * (999 / 10000) \<le> ?d2 * m"
    by (rule mult_mono) (use d2 m in simp_all)
  have hi3: "?d2 * m \<le> (162 / 10) * (1001 / 10000)"
    by (rule mult_mono) (use d2 m in simp_all)
  have d3: "15 / 10 \<le> ?d3" "?d3 \<le> 17 / 10"
    using doubleRounding_bounds [OF dr, of "(158 / 10) * (999 / 10000)" "?d2 * m" "(162 / 10) * (1001 / 10000)"]
      lo3 hi3 by simp_all
  have t: "10014 / 10 \<le> ?t" "?t \<le> 10018 / 10"
    using doubleRounding_bounds [OF dr, of "10015 / 10" "real_of_int 1000 + ?d3" "10017 / 10"] d3
    by simp_all
  show ?thesis
    by (rule TimeClip_between) (use t in simp_all)
qed

lemma slow_frame_7:
  assumes dr: "doubleRounding fl" and m: "999 / 10000 \<le> m" "m \<le> 1001 / 10000"
  shows "TimeClip (fl (real_of_int 1000 + fl (fl (fl (real_of_int 7 / 1000) * 1000) * m))) = 1000"
proof -
  let ?d1 = "fl (real_of_int 7 / 1000)"
  let ?d2 = "fl (?d1 * 1000)"
  let ?d3 = "fl (?d2 * m)"
  let ?t = "fl (real_of_int 1000 + ?d3)"
  have d1: "69 / 10000 \<le> ?d1" "?d1 \<le> 71 / 10000"
    using doubleRounding_bounds [OF dr, of "7 / 1000" "real_of_int 7 / 1000" "7 / 1000"] by simp_all
  have d2: "68 / 10 \<le> ?d2" "?d2 \<le> 72 / 10"
    using doubleRounding_bounds [OF dr, of "69 / 10" "?d1 * 1000" "71 / 10"] d1 by simp_all
  have lo3: "(68 / 10) * (999 / 10000) \<le> ?d2 * m"
    by (rule mult_mono) (use d2 m in simp_all)
  have hi3: "?d2 * m \<le> (72 / 10) * (1001 / 10000)"
    by (rule mult_mono) (use d2 m in simp_all)
  have d3: "6 / 10 \<le> ?d3" "?d3 \<le> 8 / 10"
    using doubleRounding_bounds [OF dr, of "(68 / 10) * (999 / 10000)" "?d2 * m" "(72 / 10) * (1001 / 10000)"]
      lo3 hi3 by simp_all
  have t: "10005 / 10 \<le> ?t" "?t \<le> 10009 / 10"
    using doubleRounding_bounds [OF dr, of "10006 / 10" "real_of_int 1000 + ?d3" "10008 / 10"] d3
    by simp_all
  show ?thesis
    by (rule TimeClip_between) (use t in simp_all)
qed

lemma slow_multiplier:
  assumes "doubleRounding fl"
  shows "999 / 10000 \<le> timeMultiplier (setTimeMultiplier fl (fl (1 / 10)) s)"
    and "timeMultiplier (setTimeMultiplier fl (fl (1 / 10)) s) \<le> 1001 / 10000"
  using doubleRounding_bounds [OF assms, of "1 / 10" "1 / 10" "1 / 10"]
  by (simp_all add: setTimeMultiplier_def)

lemma slow_state_fields:
  "\<not> isRunning (setTimeMultiplier fl m (pause app0))"
  "currentDate (setTimeMultiplier fl m (pause app0)) = 1000"
  "lastUpdateTime (setTimeMultiplier fl m (pause app0)) = 0"
  by (simp_all add: setTimeMultiplier_def pause_def app0_def)

text \<open>
  C9. A paused frame is meant to advance the virtual time by the elapsed real time times
  the multiplier. The clock is a \<open>Date\<close> and keeps whole milliseconds, and nothing
  carries the dropped fraction over: paused at the multiplier 0.1 with the clock at 1000,
  a frame 16 ms after the last one moves it by 1 ms where the product is at least 1.5 ms
  (1.6 ms in exact arithmetic), and four frames 7 ms apart, 0.7 ms each, do not move it at
  all. This holds whatever the rounding of the double arithmetic.
\<close>

theorem paused_frame_drops_fraction:
  assumes "doubleRounding fl"
  shows "\<not> isRunning (setTimeMultiplier fl (fl (1 / 10)) (pause app0)) \<and>
         15 / 10 \<le> real_of_int (16 - lastUpdateTime (setTimeMultiplier fl (fl (1 / 10)) (pause app0))) *
           timeMultiplier (setTimeMultiplier fl (fl (1 / 10)) (pause app0)) \<and>
         currentDate (animate fl lib three 16 (setTimeMultiplier fl (fl (1 / 10)) (pause app0))) =
           currentDate (setTimeMultiplier fl (fl (1 / 10)) (pause app0)) + 1 \<and>
         currentDate (frames fl lib three [7, 14, 21, 28] (setTimeMultiplier fl (fl (1 / 10)) (pause app0))) =
           currentDate (setTimeMultiplier fl (fl (1 / 10)) (pause app0))"
proof -
  let ?S = "setTimeMultiplier fl (fl (1 / 10)) (pause app0)"
  note m = slow_multiplier [OF assms, of "pause app0"]
  have a16: "currentDate (animate fl lib three 16 ?S) = 1001"
    using slow_frame_16 [OF assms m] by (simp add: animate_clock slow_state_fields)
  have step: "currentDate (animate fl lib three now s) = 1000"
    if "currentDate s = 1000" "now - lastUpdateTime s = 7"
      "timeMultiplier s = timeMultiplier ?S" for now and s :: "nat app_state"
    using slow_frame_7 [OF assms m] that by (simp add: animate_clock)
  let ?s1 = "animate fl lib three 7 ?S"
  let ?s2 = "animate fl lib three 14 ?s1"
  let ?s3 = "animate fl lib three 21 ?s2"
  let ?s4 = "animate fl lib three 28 ?s3"
  have c1: "currentDate ?s1 = 1000"
    by (rule step) (simp_all add: slow_state_fields)
  have c2: "currentDate ?s2 = 1000"
    by (rule step) (simp_all add: c1 animate_clock(2,3))
  have c3: "currentDate ?s3 = 1000"
    by (rule step) (simp_all add: c2 animate_clock(2,3))
  have c4: "currentDate ?s4 = 1000"
    by (rule step) (simp_all add: c3 animate_clock(2,3))
  have f: "frames fl lib three [7, 14, 21, 28] ?S = ?s4"
    by (simp add: frames_def)
  have prod: "15 / 10 \<le> real_of_int (16 - lastUpdateTime ?S) * timeMultiplier ?S"
    using m(1) by (simp add: slow_state_fields)
  from prod show ?thesis
    by (simp only: f c4 a16 slow_state_fields) simp
qed

text \<open>The theorem for exact arithmetic, where the products are exactly 1.6 and 0.7.\<close>

theorem paused_frame_drops_fraction_witness:
  "doubleRounding id \<and>
   real_of_int (16 - lastUpdateTime (setTimeMultiplier id (id (1 / 10)) (pause app0))) *
     timeMultiplier (setTimeMultiplier id (id (1 / 10)) (pause app0)) = 16 / 10 \<and>
   currentDate (setTimeMultiplier id (id (1 / 10)) (pause app0)) = 1000 \<and>
   currentDate (animate id lib0 True 16 (setTimeMultiplier id (id (1 / 10)) (pause app0))) = 1001 \<and>
   currentDate (frames id lib0 True [7, 14, 21, 28] (setTimeMultiplier id (id (1 / 10)) (pause app0))) = 1000"
proof -
  have dr: "doubleRounding id" by (simp add: doubleRounding_def)
  have s: "currentDate (setTimeMultiplier id (id (1 / 10)) (pause app0)) = 1000"
    "lastUpdateTime (setTimeMultiplier id (id (1 / 10)) (pause app0)) = 0"
    "timeMultiplier (setTimeMultiplier id (id (1 / 10)) (pause app0)) = 1 / 10"
    by (simp_all add: setTimeMultiplier_def pause_def app0_def)
  show ?thesis
    using paused_frame_drops_fraction [OF dr, of lib0 True] dr
    by (simp only: s) simp
qed

end
